theory Spec2Isabelle
  imports Main "HOL-Library.Sublist"
begin

section \<open>Strings\<close>

text \<open>
  JavaScript strings are modelled as \<open>string\<close>, a list of 8-bit characters that
  stand for the code units U+0000 to U+00FF. The built-in methods the library calls on
  them are written out as recursive functions: \<open>String.prototype.includes\<close>,
  \<open>String.prototype.trim\<close> and the \<open>slice(-1)\<close> / \<open>slice(0, -1)\<close> idiom. The
  white space of \<open>trim\<close> (and of \<open>\s\<close> in a regular expression) is the ECMAScript
  \<open>WhiteSpace\<close> and \<open>LineTerminator\<close> classes. Their members in this range are TAB,
  LF, VT, FF, CR, SP and the no-break space U+00A0; the members from U+1680 on (among them
  U+2028, U+2029 and U+FEFF) lie beyond the 8-bit range, and strings that hold them are not
  covered.
\<close>

definition isWhiteSpace :: "char \<Rightarrow> bool" where
  "isWhiteSpace c =
     (c \<in> {CHR 0x09, CHR 0x0A, CHR 0x0B, CHR 0x0C, CHR 0x0D, CHR 0x20, CHR 0xA0})"

definition trim :: "string \<Rightarrow> string" where
  "trim s = rev (dropWhile isWhiteSpace (rev (dropWhile isWhiteSpace s)))"

fun startsWith :: "string \<Rightarrow> string \<Rightarrow> bool" where
  "startsWith s [] = True"
| "startsWith [] (n # ns) = False"
| "startsWith (c # cs) (n # ns) = (c = n \<and> startsWith cs ns)"

fun str_includes :: "string \<Rightarrow> string \<Rightarrow> bool" where
  "str_includes [] needle = (needle = [])"
| "str_includes (c # cs) needle = (startsWith (c # cs) needle \<or> str_includes cs needle)"

text \<open>\<open>s.slice(-1) === '/' ? s.slice(0, -1) : s\<close>\<close>

definition stripTrailingSlash :: "string \<Rightarrow> string" where
  "stripTrailingSlash s = (if s \<noteq> [] \<and> last s = CHR ''/'' then butlast s else s)"

section \<open>util/requestHelpers: urlContains\<close>

text \<open>
  \<^verbatim>\<open>
  const urlContains = (urlA, urlB) => {
      if (!urlA && !urlB) { return true; }
      if (!urlA || !urlB) { return false; }
      const trimmedUrlA = urlA.trim();
      const trimmedUrlB = urlB.trim();
      const strippedUrlA = trimmedUrlA.slice(-1) === '/' ? trimmedUrlA.slice(0, -1) : trimmedUrlA;
      const strippedUrlB = trimmedUrlB.slice(-1) === '/' ? trimmedUrlB.slice(0, -1) : trimmedUrlB;
      return urlA.includes(strippedUrlB) || urlB.includes(strippedUrlA);
  };
  \<close>
  A string is falsy exactly when it is empty. The parameters are declared
  \<open>string | undefined\<close>; \<open>undefined\<close> takes the same two branches as the empty
  string and is represented by it.
\<close>

definition urlContains :: "string \<Rightarrow> string \<Rightarrow> bool" where
  "urlContains urlA urlB =
     (if urlA = [] \<and> urlB = [] then True
      else if urlA = [] \<or> urlB = [] then False
      else
        let trimmedUrlA = trim urlA;
            trimmedUrlB = trim urlB;
            strippedUrlA = stripTrailingSlash trimmedUrlA;
            strippedUrlB = stripTrailingSlash trimmedUrlB
        in str_includes urlA strippedUrlB \<or> str_includes urlB strippedUrlA)"

text \<open>
  The comparison as the specification words it: both arguments trimmed and stripped of
  one trailing slash, true iff either result contains the other as a substring.
\<close>

definition urlContains_spec :: "string \<Rightarrow> string \<Rightarrow> bool" where
  "urlContains_spec a b =
     (sublist (stripTrailingSlash (trim a)) (stripTrailingSlash (trim b)) \<or>
      sublist (stripTrailingSlash (trim b)) (stripTrailingSlash (trim a)))"

section \<open>JavaScript values\<close>

text \<open>
  The decoded XML tree, the property bags of a response and the tags the library copies
  out of them (\<open>ctag\<close>, \<open>syncToken\<close>, \<open>etag\<close>) are untyped JavaScript values. The
  number type \<open>'n\<close> is left open: it stands for the IEEE doubles other than NaN, with the
  two zeros identified. What the library needs of the platform's numbers is passed as a
  record of functions: \<open>Number(s)\<close> (\<open>None\<close> when the result is NaN),
  \<open>Number.prototype.toString\<close> and the test for zero behind truthiness.
\<close>

datatype 'n jsval =
    JUndefined
  | JNull
  | JBool bool
  | JNum 'n
  | JStr string
  | JArr "'n jsval list"
  | JObj "(string \<times> 'n jsval) list"

record 'n js_number =
  js_Number :: "string \<Rightarrow> 'n option"
  js_numToString :: "'n \<Rightarrow> string"
  js_isZero :: "'n \<Rightarrow> bool"

datatype js_error = Error string | TypeError | NetworkError

text \<open>Truthiness (\<open>ToBoolean\<close>): what \<open>!v\<close>, \<open>v && w\<close> and \<open>if (v)\<close> test.\<close>

fun truthy :: "('n, 'a) js_number_scheme \<Rightarrow> 'n jsval \<Rightarrow> bool" where
  "truthy N JUndefined = False"
| "truthy N JNull = False"
| "truthy N (JBool b) = b"
| "truthy N (JNum n) = (\<not> js_isZero N n)"
| "truthy N (JStr s) = (s \<noteq> [])"
| "truthy N (JArr xs) = True"
| "truthy N (JObj kvs) = True"

text \<open>
  Strict equality \<open>===\<close>. Primitives compare by type and value. Objects and arrays compare
  by reference; the two sides of every \<open>===\<close> and \<open>!==\<close> of the library come from
  different places (a local snapshot and a freshly decoded response), so two objects are
  never the same reference.
\<close>

fun strict_eq :: "'n jsval \<Rightarrow> 'n jsval \<Rightarrow> bool" where
  "strict_eq JUndefined JUndefined = True"
| "strict_eq JNull JNull = True"
| "strict_eq (JBool a) (JBool b) = (a = b)"
| "strict_eq (JNum a) (JNum b) = (a = b)"
| "strict_eq (JStr a) (JStr b) = (a = b)"
| "strict_eq v w = False"

text \<open>
  Property read \<open>v.k\<close> and \<open>v?.k\<close> for the names the library reads (none of them is an
  index or \<open>length\<close>, so only an object can hold one). \<open>js_get\<close> is the read where the
  base is known not to be nullish or stands under \<open>?.\<close>; \<open>js_get_strict\<close> is the plain
  read, which throws a TypeError on \<open>undefined\<close> and \<open>null\<close>.
\<close>

fun js_get :: "'n jsval \<Rightarrow> string \<Rightarrow> 'n jsval" where
  "js_get (JObj kvs) k = (case map_of kvs k of Some v \<Rightarrow> v | None \<Rightarrow> JUndefined)"
| "js_get v k = JUndefined"

fun js_get_strict :: "'n jsval \<Rightarrow> string \<Rightarrow> js_error + 'n jsval" where
  "js_get_strict JUndefined k = Inl TypeError"
| "js_get_strict JNull k = Inl TypeError"
| "js_get_strict v k = Inr (js_get v k)"

text \<open>\<open>v ?? d\<close>\<close>

fun nullish_or :: "'n jsval \<Rightarrow> 'n jsval \<Rightarrow> 'n jsval" where
  "nullish_or JUndefined d = d"
| "nullish_or JNull d = d"
| "nullish_or v d = v"

text \<open>\<open>Array.isArray(v) ? v : [v]\<close>\<close>

fun asArray :: "'n jsval \<Rightarrow> 'n jsval list" where
  "asArray (JArr xs) = xs"
| "asArray v = [v]"

text \<open>Decimal digits of a natural number (array indices as property names).\<close>

function showNat :: "nat \<Rightarrow> string" where
  "showNat n =
     (if n < 10 then [''0123456789'' ! n]
      else showNat (n div 10) @ [''0123456789'' ! (n mod 10)])"
  by pat_completeness auto
termination
  by (relation "measure id") auto

declare showNat.simps [simp del]

text \<open>
  \<open>Object.keys(v)\<close> for a value that is not nullish: the own enumerable property names.
  An object is the list of its properties in insertion order, each name once.
\<close>

fun Object_keys :: "'n jsval \<Rightarrow> string list" where
  "Object_keys (JObj kvs) = remdups (map fst kvs)"
| "Object_keys (JArr xs) = map showNat [0..<length xs]"
| "Object_keys (JStr s) = map showNat [0..<length s]"
| "Object_keys v = []"

text \<open>
  \<open>Object.assign({}, prev, extra)\<close> and the spread \<open>{...prev, ...extra}\<close> on property
  lists: a key of \<open>extra\<close> replaces the value in place when \<open>prev\<close> has it and is appended
  otherwise.
\<close>

fun obj_set :: "('k \<times> 'v) list \<Rightarrow> 'k \<Rightarrow> 'v \<Rightarrow> ('k \<times> 'v) list" where
  "obj_set [] k v = [(k, v)]"
| "obj_set ((k', v') # kvs) k v =
     (if k' = k then (k, v) # kvs else (k', v') # obj_set kvs k v)"

definition obj_assign :: "('k \<times> 'v) list \<Rightarrow> ('k \<times> 'v) list \<Rightarrow> ('k \<times> 'v) list" where
  "obj_assign prev extra = foldl (\<lambda>acc (k, v). obj_set acc k v) prev extra"

text \<open>The own enumerable properties a spread \<open>...v\<close> copies.\<close>

fun spread :: "'n jsval \<Rightarrow> (string \<times> 'n jsval) list" where
  "spread (JObj kvs) = kvs"
| "spread (JArr xs) = zip (map showNat [0..<length xs]) xs"
| "spread (JStr s) = zip (map showNat [0..<length s]) (map (\<lambda>c. JStr [c]) s)"
| "spread v = []"

text \<open>
  \<open>ToString\<close>, as applied by \<open>RegExp.prototype.exec\<close> and by template literals; the
  method call \<open>v.toString()\<close> agrees with it on every value that is not nullish.
\<close>

fun intercalate :: "string \<Rightarrow> string list \<Rightarrow> string" where
  "intercalate sep [] = []"
| "intercalate sep [x] = x"
| "intercalate sep (x # y # ys) = x @ sep @ intercalate sep (y # ys)"

fun js_toString :: "('n, 'a) js_number_scheme \<Rightarrow> 'n jsval \<Rightarrow> string" where
  "js_toString N JUndefined = ''undefined''"
| "js_toString N JNull = ''null''"
| "js_toString N (JBool b) = (if b then ''true'' else ''false'')"
| "js_toString N (JNum n) = js_numToString N n"
| "js_toString N (JStr s) = s"
| "js_toString N (JArr xs) =
     intercalate '',''
       (map (\<lambda>x. case x of JUndefined \<Rightarrow> [] | JNull \<Rightarrow> [] | _ \<Rightarrow> js_toString N x) xs)"
| "js_toString N (JObj kvs) = ''[object Object]''"

text \<open>ASCII case folding of \<open>String.prototype.toLowerCase\<close>.\<close>

definition toLowerCase :: "string \<Rightarrow> string" where
  "toLowerCase s =
     map (\<lambda>c. case map_of (zip ''ABCDEFGHIJKLMNOPQRSTUVWXYZ'' ''abcdefghijklmnopqrstuvwxyz'') c of
                 Some l \<Rightarrow> l | None \<Rightarrow> c) s"

section \<open>util/nativeType\<close>

text \<open>
  \<^verbatim>\<open>
  const nativeType = (value) => {
      const nValue = Number(value);
      if (!Number.isNaN(nValue)) { return nValue; }
      const bValue = value.toLowerCase();
      if (bValue === 'true') { return true; }
      if (bValue === 'false') { return false; }
      return value;
  };
  \<close>
  The decoder hands every text node to \<open>nativeType\<close> and stores the result in place of
  the element that held the text.
\<close>

definition nativeType :: "('n, 'a) js_number_scheme \<Rightarrow> string \<Rightarrow> 'n jsval" where
  "nativeType N value =
     (case js_Number N value of
        Some nValue \<Rightarrow> JNum nValue
      | None \<Rightarrow>
          let bValue = toLowerCase value
          in if bValue = ''true'' then JBool True
             else if bValue = ''false'' then JBool False
             else JStr value)"

section \<open>request: davRequest\<close>

text \<open>
  The transport is the platform's \<open>fetch\<close>. A \<open>Response\<close> carries what the library
  reads of it: \<open>url\<close>, \<open>status\<close>, \<open>statusText\<close>, \<open>ok\<close>, the headers
  \<open>content-type\<close> and \<open>Location\<close> (\<open>None\<close> when \<open>headers.get\<close> returns null) and the
  body text. A request that fails on the network rejects, which is \<open>Inl\<close> here.
\<close>

record HTTPStatus =
  status :: int
  statusText :: string
  ok :: bool

record Response = HTTPStatus +
  response_url :: string
  content_type :: "string option"
  location :: "string option"
  body_text :: string

text \<open>
  Header bags are property lists of strings; a header whose value is \<open>undefined\<close> is
  held as the empty string, which is falsy as well.
\<close>

type_synonym headers = "(string \<times> string) list"

record 'n RequestInit =
  fetch_headers :: headers
  fetch_body :: "'n jsval"
  fetch_method :: string
  redirect :: "string option"

text \<open>
  The platform: the number functions, \<open>fetch\<close>, and the two converters of the xml-js
  package. \<open>js2xml\<close> receives the \<open>elementNameFn\<close> of the call and the tree;
  \<open>xml2js\<close> stands for \<open>convert.xml2js\<close> under the options davRequest passes (compact
  trees, text through \<open>nativeType\<close>, names without prefix and camel-cased), and throws on
  text that is not XML.
\<close>

record 'n platform = "'n js_number" +
  fetch :: "string \<Rightarrow> 'n RequestInit \<Rightarrow> js_error + Response"
  js2xml :: "(string \<Rightarrow> string) \<Rightarrow> 'n jsval \<Rightarrow> string"
  xml2js :: "string \<Rightarrow> js_error + 'n jsval"

text \<open>The requests issued so far, oldest first: the URL and the init of each \<open>fetch\<close>.\<close>

type_synonym 'n sent = "(string \<times> 'n RequestInit) list"

datatype 'n raw = RawText string | RawTree "'n jsval"

record 'n DAVResponse = HTTPStatus +
  raw :: "'n raw option"
  href :: "string option"
  error :: "'n jsval"
  responsedescription :: "'n jsval"
  props :: "(string \<times> 'n jsval) list option"

record 'n DAVRequestInit =
  "method" :: string
  headers :: "headers option"
  namespace :: string
  body :: "'n jsval"
  attributes :: "'n jsval"

text \<open>
  The parameters of davRequest. \<open>init.headers\<close> is optional. \<open>convertIncoming\<close>,
  \<open>parseOutgoing\<close> and \<open>proxyUrl\<close> are optional as well; destructuring gives them the
  defaults \<open>true\<close>, \<open>true\<close> and \<open>''\<close>.
\<close>

record 'n DAVRequest =
  request_url :: string
  init :: "'n DAVRequestInit"
  convertIncoming :: "bool option"
  parseOutgoing :: "bool option"
  proxyUrl :: "string option"

text \<open>
  \<^verbatim>\<open>
  const cleanupFalsy = (obj) => Object.entries(obj).reduce((prev, [key, value]) => {
      if (value) return Object.assign(Object.assign({}, prev), { [key]: value });
      return prev;
  }, {});
  \<close>
\<close>

definition cleanupFalsy :: "headers \<Rightarrow> headers" where
  "cleanupFalsy obj =
     foldl (\<lambda>prev (key, value). if value \<noteq> [] then obj_set prev key value else prev) [] obj"

definition isLineTerminator :: "char \<Rightarrow> bool" where
  "isLineTerminator c = (c \<in> {CHR 0x0A, CHR 0x0D})"

definition isDigit :: "char \<Rightarrow> bool" where
  "isDigit c = (c \<in> set ''0123456789'')"

text \<open>\<open>/^.+:.+/.test(name)\<close>: some colon has a character before it and one after it, all
  on the first line.\<close>

fun hasNamespace :: "bool \<Rightarrow> string \<Rightarrow> bool" where
  "hasNamespace seen [] = False"
| "hasNamespace seen (c # cs) =
     (if isLineTerminator c then False
      else if c = CHR '':'' \<and> seen \<and> cs \<noteq> [] \<and> \<not> isLineTerminator (hd cs) then True
      else hasNamespace True cs)"

text \<open>
  \<^verbatim>\<open>
  elementNameFn: (name) => {
      // add namespace to all keys without namespace
      if (namespace && !/^.+:.+/.test(name)) { return `${namespace}:${name}`; }
      return name;
  }
  \<close>
\<close>

definition elementNameFn :: "string \<Rightarrow> string \<Rightarrow> string" where
  "elementNameFn ns name =
     (if ns \<noteq> [] \<and> \<not> hasNamespace False name then ns @ '':'' @ name else name)"

text \<open>
  \<open>/^\S+\s(?<status>\d+)\s(?<statusText>.+)$/.exec(line)\<close>: a run of non-blank
  characters, one blank, a run of digits, one blank, and a non-empty rest of one line. The
  match is unique, so it is read off from left to right. The result is the pair of the
  two named groups.
\<close>

definition statusRegex_exec :: "string \<Rightarrow> (string \<times> string) option" where
  "statusRegex_exec line =
     (let proto = takeWhile (\<lambda>c. \<not> isWhiteSpace c) line;
          rest1 = dropWhile (\<lambda>c. \<not> isWhiteSpace c) line
      in if proto = [] \<or> rest1 = [] then None
         else
           let digits = takeWhile isDigit (tl rest1);
               rest2 = dropWhile isDigit (tl rest1)
           in if digits = [] \<or> rest2 = [] \<or> \<not> isWhiteSpace (hd rest2) then None
              else if tl rest2 = [] \<or> list_ex isLineTerminator (tl rest2) then None
              else Some (digits, tl rest2))"

text \<open>
  \<open>Number.parseInt(digits, 10)\<close> on a non-empty string of decimal digits, as the exact
  integer. The platform's result is a double: it is this integer for up to 15 digits (and
  for every value below \<open>2^53\<close>), and the nearest double for longer strings, which the
  model does not follow. HTTP status codes have three digits.
\<close>

definition digitValue :: "char \<Rightarrow> int" where
  "digitValue c = int (length (takeWhile (\<lambda>d. d \<noteq> c) ''0123456789''))"

definition parseInt :: "string \<Rightarrow> int" where
  "parseInt digits = foldl (\<lambda>acc c. 10 * acc + digitValue c) 0 digits"

text \<open>
  The field \<open>href\<close> of a DAVResponse is declared \<open>string | undefined\<close>, and
  \<open>href: responseBody.href\<close> copies the decoded value into it as it is. The model
  covers the responses whose decoded href is a string or absent. When the decoder yields
  another value (an array for several href children, a number for text that \<open>Number\<close>
  can read), the code stores that value, outside the declared type, and a caller that
  later hands it to urlContains throws a TypeError on \<open>trim\<close>; the model has no such
  value and reads it as absent, so it does not describe the code on these responses.
\<close>

fun js_href :: "'n jsval \<Rightarrow> string option" where
  "js_href (JStr s) = Some s"
| "js_href v = None"

definition PROXY_URL :: string where
  "PROXY_URL = ''http://localhost:8001/''"

text \<open>
  The callback of \<open>responseBodies.map\<close> in davRequest:
  \<^verbatim>\<open>
  (responseBody) => {
      const statusRegex = /^\S+\s(?<status>\d+)\s(?<statusText>.+)$/;
      if (!responseBody) {
          return { status: davResponse.status, statusText: davResponse.statusText,
                   ok: davResponse.ok };
      }
      const matchArr = statusRegex.exec(responseBody.status);
      return {
          raw: result,
          href: responseBody.href,
          status: matchArr?.groups ? Number.parseInt(matchArr?.groups.status, 10)
                                   : davResponse.status,
          statusText: matchArr?.groups?.statusText ?? davResponse.statusText,
          ok: !responseBody.error,
          error: responseBody.error,
          responsedescription: responseBody.responsedescription,
          props: (Array.isArray(responseBody.propstat)
              ? responseBody.propstat
              : [responseBody.propstat]).reduce((prev, curr) => {
              return Object.assign(Object.assign({}, prev), curr?.prop);
          }, {}),
      };
  }
  \<close>
\<close>

definition mapResponseBody ::
  "('n, 'a) js_number_scheme \<Rightarrow> Response \<Rightarrow> 'n jsval \<Rightarrow> 'n jsval \<Rightarrow> 'n DAVResponse" where
  "mapResponseBody N davResponse result responseBody =
     (if \<not> truthy N responseBody then
        \<lparr>status = status davResponse, statusText = statusText davResponse,
         ok = ok davResponse,
         raw = None, href = None, error = JUndefined, responsedescription = JUndefined,
         props = None\<rparr>
      else
        let matchArr =
              statusRegex_exec (js_toString N (js_get responseBody ''status''))
        in
        \<lparr>status = (case matchArr of Some (st, txt) \<Rightarrow> parseInt st
                                   | None \<Rightarrow> status davResponse),
         statusText = (case matchArr of Some (st, txt) \<Rightarrow> txt
                                       | None \<Rightarrow> statusText davResponse),
         ok = (\<not> truthy N (js_get responseBody ''error'')),
         raw = Some (RawTree result),
         href = js_href (js_get responseBody ''href''),
         error = js_get responseBody ''error'',
         responsedescription = js_get responseBody ''responsedescription'',
         props = Some (foldl (\<lambda>prev curr. obj_assign prev (spread (js_get curr ''prop''))) []
                         (asArray (js_get responseBody ''propstat'')))\<rparr>)"

text \<open>
  \<^verbatim>\<open>
  const __PROXY_URL__ = "http://localhost:8001/";
  const davRequest = (params) => __awaiter(void 0, void 0, void 0, function* () {
      const { url, init, convertIncoming = true, parseOutgoing = true, proxyUrl = '' } = params;
      const { headers, body, namespace, method, attributes } = init;
      const xmlBody = convertIncoming
          ? convert.js2xml({ _declaration: { _attributes: { version: '1.0', encoding: 'utf-8' } },
                             ...body, _attributes: attributes },
                           { compact: true, spaces: 2, elementNameFn: ... })
          : body;
      const davResponse = yield fetch(__PROXY_URL__ + url, {
          headers: Object.assign({ 'Content-Type': 'text/xml;charset=UTF-8' }, cleanupFalsy(headers)),
          body: xmlBody,
          method,
      });
      const resText = yield davResponse.text();
      if (!davResponse.ok ||
          !davResponse.headers.get('content-type')?.includes('xml') ||
          !parseOutgoing) {
          return [ { href: davResponse.url, ok: davResponse.ok, status: davResponse.status,
                     statusText: davResponse.statusText, raw: resText } ];
      }
      const result = convert.xml2js(resText, { ... });
      const responseBodies = Array.isArray(result.multistatus.response)
          ? result.multistatus.response
          : [result.multistatus.response];
      return responseBodies.map((responseBody) => { ... });
  });
  \<close>
  The function takes the list of requests sent so far and returns it with its own request
  added. Without \<open>init.headers\<close> the call throws before any request is made
  (\<open>Object.entries(undefined)\<close> in cleanupFalsy). A rejected \<open>fetch\<close>, a body that
  \<open>xml2js\<close> refuses and a tree without \<open>multistatus\<close> (the read of
  \<open>.response\<close> throws) end the call with the error.
\<close>

definition davRequest ::
  "'n platform \<Rightarrow> 'n DAVRequest \<Rightarrow> 'n sent \<Rightarrow> (js_error + 'n DAVResponse list) \<times> 'n sent" where
  "davRequest P params sent =
     (let url = request_url params;
          convertIncoming' = (case convertIncoming params of None \<Rightarrow> True | Some b \<Rightarrow> b);
          parseOutgoing' = (case parseOutgoing params of None \<Rightarrow> True | Some b \<Rightarrow> b);
          proxyUrl' = (case proxyUrl params of None \<Rightarrow> [] | Some p \<Rightarrow> p);
          xmlBody =
            (if convertIncoming' then
               JStr (js2xml P (elementNameFn (namespace (init params)))
                 (JObj (obj_set
                   (obj_assign
                      [(''_declaration'',
                        JObj [(''_attributes'',
                          JObj [(''version'', JStr ''1.0''), (''encoding'', JStr ''utf-8'')])])]
                      (spread (body (init params))))
                   ''_attributes'' (attributes (init params)))))
             else body (init params))
      in case headers (init params) of
           None \<Rightarrow> (Inl TypeError, sent)
         | Some hs \<Rightarrow>
             let request =
                   \<lparr>fetch_headers =
                      obj_assign [(''Content-Type'', ''text/xml;charset=UTF-8'')] (cleanupFalsy hs),
                    fetch_body = xmlBody,
                    fetch_method = method (init params),
                    redirect = None\<rparr>;
                 sent' = sent @ [(PROXY_URL @ url, request)]
             in case fetch P (PROXY_URL @ url) request of
                  Inl e \<Rightarrow> (Inl e, sent')
                | Inr davResponse \<Rightarrow>
                    let resText = body_text davResponse
                    in if \<not> ok davResponse \<or>
                          \<not> (case content_type davResponse of
                                None \<Rightarrow> False
                              | Some ct \<Rightarrow> str_includes ct ''xml'') \<or>
                          \<not> parseOutgoing'
                       then
                         (Inr [\<lparr>status = status davResponse,
                                statusText = statusText davResponse,
                                ok = ok davResponse,
                                raw = Some (RawText resText),
                                href = Some (response_url davResponse),
                                error = JUndefined, responsedescription = JUndefined,
                                props = None\<rparr>],
                          sent')
                       else
                         (case xml2js P resText of
                            Inl e \<Rightarrow> (Inl e, sent')
                          | Inr result \<Rightarrow>
                              (case js_get_strict (js_get result ''multistatus'') ''response'' of
                                 Inl e \<Rightarrow> (Inl e, sent')
                               | Inr response \<Rightarrow>
                                   (Inr (map (mapResponseBody P davResponse result)
                                          (asArray response)),
                                    sent'))))"

section \<open>Data model of the sync engine\<close>

text \<open>
  \<open>DAVObject\<close> is \<open>{url, etag, data?}\<close>. The tags are whatever the decoder produced for
  the property, so they are JavaScript values. \<open>data\<close> is \<open>None\<close> for an object
  without the property and \<open>Some v\<close> for one that has it, also when \<open>v\<close> is
  \<open>undefined\<close>.
\<close>

record DAVResource =
  url :: string

record 'n DAVObject = DAVResource +
  etag :: "'n jsval"
  data :: "'n jsval option"

text \<open>
  The field \<open>objects\<close> of a collection is the snapshot, an array of objects. A sync with
  \<open>detailedResult\<close> stores the struct \<open>{created, updated, deleted}\<close> there instead.
\<close>

datatype 'n sync_objects =
    Objects "'n DAVObject list"
  | Diff (created: "'n DAVObject list") (updated: "'n DAVObject list")
      (deleted: "'n DAVObject list")

text \<open>
  A collection. \<open>objectMultiGet\<close> and \<open>fetchObjects\<close> are the two optional callbacks a
  collection carries: the first is called with \<open>{url, props, objectUrls, depth: '1'}\<close> and
  is a function of the url, the names of the requested properties and the object urls; the
  second is called with the collection and is a function of its url. Both are awaited:
  a call either resolves to an array or rejects with an error. Other fields of a
  collection (those a calendar adds among them) live in the extension of the record and
  are carried along unchanged.
\<close>

record 'n DAVCollection = DAVResource +
  ctag :: "'n jsval"
  syncToken :: "'n jsval"
  reports :: "'n jsval list option"
  objects :: "'n sync_objects option"
  objectMultiGet ::
    "(string \<Rightarrow> string list \<Rightarrow> string list \<Rightarrow> js_error + 'n DAVResponse list) option"
  fetchObjects :: "(string \<Rightarrow> js_error + 'n DAVObject list) option"

record 'n DAVCalendar = "'n DAVCollection" +
  description :: string
  timezone :: string
  calendarColor :: "'n jsval"
  displayName :: "'n jsval"
  components :: "'n jsval list"
  resourcetype :: "string list"

text \<open>
  An account. The url fields are strings, empty when the field is absent (both are
  falsy, and the library only tests them for truthiness before use); \<open>proxyUrl\<close> keeps
  the difference, since it is concatenated without a test.
\<close>

record 'n DAVAccount =
  accountType :: string
  serverUrl :: string
  rootUrl :: string
  principalUrl :: string
  homeUrl :: string
  account_proxyUrl :: "string option"
  calendars :: "'n DAVCalendar list option"

datatype sync_method = Basic | Webdav

text \<open>
  The server as the operations of the sync engine see it: the array of DAVResponse that
  davRequest resolved to for each of their requests. \<open>propfind\<close> is keyed by the url, the
  names of the requested properties and the depth; \<open>syncCollection\<close> by the url, the
  property names, the sync level and the sync token; \<open>calendarMultiGet\<close> by the url, the
  property names and the object urls. Request headers are passed through by every
  operation and are left out. A request that rejects makes the operation reject with the
  transport's error; \<open>propfind\<close> and \<open>syncCollection\<close> are modelled for requests that
  were answered. \<open>calendarMultiGet\<close> is the function syncCalendars hands to
  smartCollectionSync as a collection's \<open>objectMultiGet\<close>, and has that callback's
  type.
\<close>

record 'n DAVServer =
  propfind :: "string \<Rightarrow> string list \<Rightarrow> string \<Rightarrow> 'n DAVResponse list"
  syncCollection :: "string \<Rightarrow> string list \<Rightarrow> nat \<Rightarrow> 'n jsval \<Rightarrow> 'n DAVResponse list"
  calendarMultiGet ::
    "string \<Rightarrow> string list \<Rightarrow> string list \<Rightarrow> js_error + 'n DAVResponse list"

section \<open>util/typeHelpers: hasFields and findMissingFieldNames\<close>

text \<open>
  \<^verbatim>\<open>
  function hasFields(obj, fields) {
      const inObj = (object) => fields.every((f) => object[f]);
      ...
      return inObj(obj);
  }
  const findMissingFieldNames = (obj, fields) =>
      fields.reduce((prev, curr) => (obj[curr] ? prev : `${prev.length ? `${prev},` : ''}${curr}`), '');
  \<close>
  \<open>accountField a f\<close> is the truthiness of \<open>a[f]\<close>.
\<close>

definition accountField :: "('n, 'z) DAVAccount_scheme \<Rightarrow> string \<Rightarrow> bool" where
  "accountField a f =
     (if f = ''accountType'' then accountType a \<noteq> []
      else if f = ''serverUrl'' then serverUrl a \<noteq> []
      else if f = ''rootUrl'' then rootUrl a \<noteq> []
      else if f = ''principalUrl'' then principalUrl a \<noteq> []
      else if f = ''homeUrl'' then homeUrl a \<noteq> []
      else if f = ''proxyUrl'' then (case account_proxyUrl a of None \<Rightarrow> False | Some p \<Rightarrow> p \<noteq> [])
      else if f = ''calendars'' then calendars a \<noteq> None
      else False)"

definition hasFields :: "(string \<Rightarrow> bool) \<Rightarrow> string list \<Rightarrow> bool" where
  "hasFields obj fieldNames = list_all obj fieldNames"

definition findMissingFieldNames :: "(string \<Rightarrow> bool) \<Rightarrow> string list \<Rightarrow> string" where
  "findMissingFieldNames obj fieldNames =
     foldl (\<lambda>prev curr. if obj curr then prev
                          else (if prev \<noteq> [] then prev @ '','' else []) @ curr) [] fieldNames"

section \<open>collection: isCollectionDirty and smartCollectionSync\<close>

text \<open>\<open>res.props?.name\<close>\<close>

definition propOf :: "('n, 'z) DAVResponse_scheme \<Rightarrow> string \<Rightarrow> 'n jsval" where
  "propOf res name = (case props res of None \<Rightarrow> JUndefined | Some ps \<Rightarrow> js_get (JObj ps) name)"

text \<open>\<open>res.href ?? ''\<close>, and \<open>res.href\<close> as an argument of urlContains\<close>

definition hrefOrEmpty :: "('n, 'z) DAVResponse_scheme \<Rightarrow> string" where
  "hrefOrEmpty res = (case href res of None \<Rightarrow> [] | Some h \<Rightarrow> h)"

record dirty =
  isDirty :: bool
  newCtag :: "string option"

text \<open>
  \<^verbatim>\<open>
  export const isCollectionDirty = async (params) => {
    const { collection, headers } = params;
    const responses = await propfind({
      url: collection.url,
      props: { [`${DAVNamespaceShort.CALENDAR_SERVER}:getctag`]: {} },
      depth: '0',
      headers,
    });
    const res = responses.filter((r) => urlContains(collection.url, r.href))[0];
    if (!res) {
      throw new Error('Collection does not exist on server');
    }
    return {
      isDirty: collection.ctag !== res.props?.getctag,
      newCtag: res.props?.getctag?.toString(),
    };
  };
  \<close>
\<close>

definition isCollectionDirty ::
  "('n, 'a) js_number_scheme \<Rightarrow> 'n DAVServer \<Rightarrow> ('n, 'z) DAVCollection_scheme \<Rightarrow>
   js_error + dirty" where
  "isCollectionDirty N S collection =
     (let responses = propfind S (url collection) [''cs:getctag''] ''0''
      in case filter (\<lambda>r. urlContains (url collection) (hrefOrEmpty r)) responses of
           [] \<Rightarrow> Inl (Error ''Collection does not exist on server'')
         | res # _ \<Rightarrow>
             Inr \<lparr>isDirty = (\<not> strict_eq (ctag collection) (propOf res ''getctag'')),
                  newCtag = (case propOf res ''getctag'' of
                               JUndefined \<Rightarrow> None
                             | JNull \<Rightarrow> None
                             | v \<Rightarrow> Some (js_toString N v))\<rparr>)"

text \<open>
  The four lists of the diff, which smartCollectionSync computes the same way under both
  strategies (except \<open>deleted\<close>):
  \<^verbatim>\<open>
  const created = remoteObjects.filter((o) =>
    localObjects.every((lo) => !urlContains(lo.url, o.url)));
  const updated = localObjects.reduce((prev, curr) => {
    const found = remoteObjects.find((ro) => urlContains(ro.url, curr.url));
    if (found && found.etag && found.etag !== curr.etag) { return [...prev, found]; }
    return prev;
  }, []);
  const unchanged = localObjects.filter((lo) =>
    remoteObjects.some((ro) => urlContains(lo.url, ro.url) && ro.etag === lo.etag));
  // webdav
  const deleted = deletedObjectUrls.map((o) => ({ url: o, etag: '' }));
  // basic
  const deleted = localObjects.filter((cal) =>
    remoteObjects.every((ro) => !urlContains(ro.url, cal.url)));
  \<close>
\<close>

definition createdObjects :: "'n DAVObject list \<Rightarrow> 'n DAVObject list \<Rightarrow> 'n DAVObject list" where
  "createdObjects localObjects remoteObjects =
     filter (\<lambda>ro. list_all (\<lambda>lo. \<not> urlContains (url lo) (url ro)) localObjects) remoteObjects"

definition updatedObjects ::
  "('n, 'a) js_number_scheme \<Rightarrow> 'n DAVObject list \<Rightarrow> 'n DAVObject list \<Rightarrow> 'n DAVObject list" where
  "updatedObjects N localObjects remoteObjects =
     foldl (\<lambda>prev curr.
              case find (\<lambda>ro. urlContains (url ro) (url curr)) remoteObjects of
                Some found \<Rightarrow>
                  if truthy N (etag found) \<and> \<not> strict_eq (etag found) (etag curr)
                  then prev @ [found] else prev
              | None \<Rightarrow> prev)
       [] localObjects"

definition unchangedObjects :: "'n DAVObject list \<Rightarrow> 'n DAVObject list \<Rightarrow> 'n DAVObject list" where
  "unchangedObjects localObjects remoteObjects =
     filter (\<lambda>lo. list_ex (\<lambda>ro. urlContains (url lo) (url ro) \<and> strict_eq (etag ro) (etag lo))
                    remoteObjects)
       localObjects"

definition deletedWebdav :: "string list \<Rightarrow> 'n DAVObject list" where
  "deletedWebdav deletedObjectUrls =
     map (\<lambda>u. \<lparr>url = u, etag = JStr [], data = None\<rparr>) deletedObjectUrls"

definition deletedBasic :: "'n DAVObject list \<Rightarrow> 'n DAVObject list \<Rightarrow> 'n DAVObject list" where
  "deletedBasic localObjects remoteObjects =
     filter (\<lambda>cal. list_all (\<lambda>ro. \<not> urlContains (url ro) (url cal)) remoteObjects) localObjects"

text \<open>
  \<open>collection.objects ?? []\<close>, as the array the diff iterates over. When the field holds
  the struct of a detailed result, \<open>localObjects.reduce\<close> is not a function and the call
  throws a TypeError.
\<close>

definition localObjectsOf :: "('n, 'z) DAVCollection_scheme \<Rightarrow> js_error + 'n DAVObject list" where
  "localObjectsOf collection =
     (case objects collection of
        None \<Rightarrow> Inr []
      | Some (Objects os) \<Rightarrow> Inr os
      | Some (Diff c u d) \<Rightarrow> Inl TypeError)"

text \<open>\<open>r.href?.slice(-4) === extName\<close>\<close>

definition hasExtension :: "string \<Rightarrow> ('n, 'z) DAVResponse_scheme \<Rightarrow> bool" where
  "hasExtension extName r =
     (case href r of None \<Rightarrow> False | Some h \<Rightarrow> drop (length h - 4) h = extName)"

text \<open>\<open>result[0]?.raw?.multistatus?.syncToken\<close>\<close>

definition firstSyncToken :: "'n DAVResponse list \<Rightarrow> 'n jsval" where
  "firstSyncToken result =
     (case result of
        [] \<Rightarrow> JUndefined
      | r # _ \<Rightarrow>
          (case raw r of
             Some (RawTree t) \<Rightarrow> js_get (js_get t ''multistatus'') ''syncToken''
           | _ \<Rightarrow> JUndefined))"

text \<open>
  The objects the webdav strategy diffs against: the answers of the collection's
  \<open>objectMultiGet\<close> for the changed hrefs, each mapped to
  \<open>{url: res.href ?? '', etag: res.props?.getetag,
    data: res.props?.calendarData?._cdata ?? res.props?.calendarData}\<close>
  (\<open>addressData\<close> for an account that is not \<open>caldav\<close>). The callback is only
  called when there are changed hrefs; when it rejects, so does the sync.
\<close>

definition dataPropName :: "string \<Rightarrow> string" where
  "dataPropName accountType' =
     (if accountType' = ''caldav'' then ''c:calendar-data'' else ''card:address-data'')"

definition remoteObjectOf :: "string \<Rightarrow> 'n DAVResponse \<Rightarrow> 'n DAVObject" where
  "remoteObjectOf accountType' res =
     \<lparr>url = hrefOrEmpty res,
      etag = propOf res ''getetag'',
      data = Some (if accountType' = ''caldav''
                   then nullish_or (js_get (propOf res ''calendarData'') ''_cdata'')
                          (propOf res ''calendarData'')
                   else nullish_or (js_get (propOf res ''addressData'') ''_cdata'')
                          (propOf res ''addressData''))\<rparr>"

definition objectResponsesOf :: "string \<Rightarrow> 'n DAVResponse list \<Rightarrow> 'n DAVResponse list" where
  "objectResponsesOf accountType' result =
     filter (hasExtension (if accountType' = ''caldav'' then ''.ics'' else ''.vcf'')) result"

definition changedObjectUrlsOf :: "string \<Rightarrow> 'n DAVResponse list \<Rightarrow> string list" where
  "changedObjectUrlsOf accountType' result =
     List.map_filter href (filter (\<lambda>r. status r \<noteq> 404) (objectResponsesOf accountType' result))"

definition deletedObjectUrlsOf :: "string \<Rightarrow> 'n DAVResponse list \<Rightarrow> string list" where
  "deletedObjectUrlsOf accountType' result =
     List.map_filter href (filter (\<lambda>r. status r = 404) (objectResponsesOf accountType' result))"

definition webdavRemoteObjects ::
  "('n, 'z) DAVCollection_scheme \<Rightarrow> string \<Rightarrow> 'n DAVResponse list \<Rightarrow>
   js_error + 'n DAVObject list" where
  "webdavRemoteObjects collection accountType' result =
     (let changedObjectUrls = changedObjectUrlsOf accountType' result;
          multiGetObjectResponse =
            (if changedObjectUrls \<noteq> [] then
               (case objectMultiGet collection of
                  None \<Rightarrow> Inr []
                | Some multiGet \<Rightarrow>
                    multiGet (url collection) [''d:getetag'', dataPropName accountType']
                      changedObjectUrls)
             else Inr [])
      in case multiGetObjectResponse of
           Inl e \<Rightarrow> Inl e
         | Inr responses \<Rightarrow> Inr (map (remoteObjectOf accountType') responses))"

text \<open>
  \<open>(await collection.fetchObjects?.({ collection, headers })) ?? []\<close>: the empty array
  without the callback, else what the callback resolves to; when it rejects, so does the
  sync.
\<close>

definition basicRemoteObjects ::
  "('n, 'z) DAVCollection_scheme \<Rightarrow> js_error + 'n DAVObject list" where
  "basicRemoteObjects collection =
     (case fetchObjects collection of
        None \<Rightarrow> Inr []
      | Some fetchAll \<Rightarrow> fetchAll (url collection))"

text \<open>
  \<open>method ?? (collection.reports?.includes('syncCollection') ? 'webdav' : 'basic')\<close>
\<close>

definition chosenMethod :: "sync_method option \<Rightarrow> ('n, 'z) DAVCollection_scheme \<Rightarrow> sync_method" where
  "chosenMethod method' collection =
     (case method' of
        Some m \<Rightarrow> m
      | None \<Rightarrow>
          (case reports collection of
             Some rs \<Rightarrow> if JStr ''syncCollection'' \<in> set rs then Webdav else Basic
           | None \<Rightarrow> Basic))"

text \<open>
  smartCollectionSync (src/collection.ts, lines 149 to 318). The account must be given and
  have \<open>accountType\<close> and \<open>homeUrl\<close>. The strategy is \<open>method\<close> when given, else
  \<open>webdav\<close> iff \<open>collection.reports\<close> includes \<open>'syncCollection'\<close>, else \<open>basic\<close>.
  Under \<open>webdav\<close> the new collection is returned in every case; under \<open>basic\<close> only when
  isCollectionDirty reports \<open>isDirty\<close>, and otherwise the function falls through to
  \<^verbatim>\<open>
  return detailedResult
    ? { ...collection, objects: { created: [], updated: [], deleted: [] } }
    : collection;
  \<close>
  Under both strategies the remote objects are awaited and the four lists are computed
  before anything is returned; under \<open>basic\<close> this comes after the call of
  isCollectionDirty and before the test of \<open>isDirty\<close>:
  \<^verbatim>\<open>
  const { isDirty, newCtag } = await isCollectionDirty({ collection, headers });
  const localObjects = collection.objects ?? [];
  const remoteObjects = (await collection.fetchObjects?.({ collection, headers })) ?? [];
  const created = ...; const updated = localObjects.reduce(...); ...
  if (isDirty) { return { ...collection, objects: ..., ctag: newCtag }; }
  \<close>
  So the errors of a run come in this order: the account checks, the request of the
  strategy, the callback, and the TypeError of a snapshot that is not an array.
\<close>

definition smartCollectionSync ::
  "('n, 'a) js_number_scheme \<Rightarrow> 'n DAVServer \<Rightarrow> ('n, 'z) DAVCollection_scheme \<Rightarrow>
   sync_method option \<Rightarrow> ('n, 'y) DAVAccount_scheme option \<Rightarrow> bool \<Rightarrow>
   js_error + ('n, 'z) DAVCollection_scheme" where
  "smartCollectionSync N S collection method' account detailedResult =
     (case account of
        None \<Rightarrow> Inl (Error ''no account for smartCollectionSync'')
      | Some acct \<Rightarrow>
          if \<not> hasFields (accountField acct) [''accountType'', ''homeUrl''] then
            Inl (Error (''account must have '' @
                        findMissingFieldNames (accountField acct) [''accountType'', ''homeUrl''] @
                        '' before smartCollectionSync''))
          else
            let syncMethod = chosenMethod method' collection
            in case syncMethod of
                 Webdav \<Rightarrow>
                   (let result =
                          syncCollection S (url collection)
                            [''d:getetag'', dataPropName (accountType acct), ''d:displayname'']
                            1 (syncToken collection);
                        deletedObjectUrls = deletedObjectUrlsOf (accountType acct) result
                    in case webdavRemoteObjects collection (accountType acct) result of
                         Inl e \<Rightarrow> Inl e
                       | Inr remoteObjects \<Rightarrow>
                           (case localObjectsOf collection of
                              Inl e \<Rightarrow> Inl e
                            | Inr localObjects \<Rightarrow>
                                let created' = createdObjects localObjects remoteObjects;
                                    updated' = updatedObjects N localObjects remoteObjects;
                                    deleted' = deletedWebdav deletedObjectUrls;
                                    unchanged = unchangedObjects localObjects remoteObjects
                                in Inr (collection
                                     \<lparr>objects :=
                                        Some (if detailedResult
                                              then Diff created' updated' deleted'
                                              else Objects (unchanged @ created' @ updated')),
                                      syncToken :=
                                        nullish_or (firstSyncToken result)
                                          (syncToken collection)\<rparr>)))
               | Basic \<Rightarrow>
                   (case isCollectionDirty N S collection of
                      Inl e \<Rightarrow> Inl e
                    | Inr d \<Rightarrow>
                        (case basicRemoteObjects collection of
                           Inl e \<Rightarrow> Inl e
                         | Inr remoteObjects \<Rightarrow>
                             (case localObjectsOf collection of
                                Inl e \<Rightarrow> Inl e
                              | Inr localObjects \<Rightarrow>
                                  let created' = createdObjects localObjects remoteObjects;
                                      updated' = updatedObjects N localObjects remoteObjects;
                                      deleted' = deletedBasic localObjects remoteObjects;
                                      unchanged = unchangedObjects localObjects remoteObjects
                                  in if isDirty d then
                                       Inr (collection
                                         \<lparr>objects :=
                                            Some (if detailedResult
                                                  then Diff created' updated' deleted'
                                                  else Objects (unchanged @ created' @ updated')),
                                          ctag := (case newCtag d of None \<Rightarrow> JUndefined
                                                                   | Some c \<Rightarrow> JStr c)\<rparr>)
                                     else if detailedResult then
                                       Inr (collection\<lparr>objects := Some (Diff [] [] [])\<rparr>)
                                     else Inr collection))))"

section \<open>account: serviceDiscovery\<close>

text \<open>
  The platform's \<open>URL\<close> class is taken as a parameter over a type \<open>'u\<close> of URL
  objects: the constructor \<open>new URL(input, base)\<close> (\<open>None\<close> when it throws
  \<open>TypeError: Invalid URL\<close>; a base that is a URL object is passed as its href), the
  getters \<open>href\<close>, \<open>protocol\<close>, \<open>hostname\<close>, \<open>port\<close> and the setters of
  \<open>protocol\<close> and \<open>port\<close>.
\<close>

record 'u URL_api =
  new_URL :: "string \<Rightarrow> string option \<Rightarrow> 'u option"
  URL_href :: "'u \<Rightarrow> string"
  URL_protocol :: "'u \<Rightarrow> string"
  URL_hostname :: "'u \<Rightarrow> string"
  URL_port :: "'u \<Rightarrow> string"
  URL_set_protocol :: "'u \<Rightarrow> string \<Rightarrow> 'u"
  URL_set_port :: "'u \<Rightarrow> string \<Rightarrow> 'u"



section \<open>calendar: fetchCalendars and syncCalendars\<close>

text \<open>Running a callback that may throw over an array: the first throw ends the loop.\<close>

fun mapE :: "('a \<Rightarrow> js_error + 'b) \<Rightarrow> 'a list \<Rightarrow> js_error + 'b list" where
  "mapE f [] = Inr []"
| "mapE f (x # xs) =
     (case f x of
        Inl e \<Rightarrow> Inl e
      | Inr y \<Rightarrow> (case mapE f xs of Inl e \<Rightarrow> Inl e | Inr ys \<Rightarrow> Inr (y # ys)))"

fun filterE :: "('a \<Rightarrow> js_error + bool) \<Rightarrow> 'a list \<Rightarrow> js_error + 'a list" where
  "filterE f [] = Inr []"
| "filterE f (x # xs) =
     (case f x of
        Inl e \<Rightarrow> Inl e
      | Inr b \<Rightarrow>
          (case filterE f xs of
             Inl e \<Rightarrow> Inl e
           | Inr ys \<Rightarrow> Inr (if b then x # ys else ys)))"

definition ICALObjects :: "string list" where
  "ICALObjects = [''VEVENT'', ''VTODO'', ''VJOURNAL'', ''VFREEBUSY'', ''VTIMEZONE'', ''VALARM'']"

text \<open>
  \<^verbatim>\<open>
  Array.isArray(rc.props?.supportedCalendarComponentSet.comp)
      ? rc.props?.supportedCalendarComponentSet.comp.map((sc) => sc._attributes.name)
      : [rc.props?.supportedCalendarComponentSet.comp._attributes.name] || []
  \<close>
  Without \<open>props\<close> the optional chain ends at once with \<open>undefined\<close>. With \<open>props\<close>
  every further read is a plain one and throws on \<open>undefined\<close>. An array is truthy, so
  \<open>|| []\<close> never applies.
\<close>

definition componentNames :: "('n, 'z) DAVResponse_scheme \<Rightarrow> js_error + 'n jsval list" where
  "componentNames rc =
     (case props rc of
        None \<Rightarrow> Inr [JUndefined]
      | Some ps \<Rightarrow>
          (case js_get_strict (js_get (JObj ps) ''supportedCalendarComponentSet'') ''comp'' of
             Inl e \<Rightarrow> Inl e
           | Inr compSet \<Rightarrow>
               (case compSet of
                  JArr scs \<Rightarrow>
                    mapE (\<lambda>sc. case js_get_strict sc ''_attributes'' of
                                  Inl e \<Rightarrow> Inl e
                                | Inr a \<Rightarrow> js_get_strict a ''name'') scs
                | _ \<Rightarrow>
                    (case js_get_strict compSet ''_attributes'' of
                       Inl e \<Rightarrow> Inl e
                     | Inr a \<Rightarrow>
                         (case js_get_strict a ''name'' of
                            Inl e \<Rightarrow> Inl e
                          | Inr n \<Rightarrow> Inr [n])))))"

text \<open>\<open>Object.keys(r.props?.resourcetype ?? {}).includes('calendar')\<close>\<close>

definition isCalendarResource :: "('n, 'z) DAVResponse_scheme \<Rightarrow> bool" where
  "isCalendarResource r =
     (''calendar'' \<in> set (Object_keys (nullish_or (propOf r ''resourcetype'') (JObj []))))"

text \<open>
  \<^verbatim>\<open>
  (rc) => {
      // filter out none iCal format calendars.
      const components = ...;
      return components.some((c) => Object.values(ICALObjects).includes(c));
  }
  \<close>
\<close>

definition isICalCalendar :: "('n, 'z) DAVResponse_scheme \<Rightarrow> js_error + bool" where
  "isICalCalendar rc =
     (case componentNames rc of
        Inl e \<Rightarrow> Inl e
      | Inr components' \<Rightarrow>
          Inr (list_ex (\<lambda>c. case c of JStr s \<Rightarrow> s \<in> set ICALObjects | _ \<Rightarrow> False) components'))"

text \<open>\<open>typeof v === 'string' ? v : ''\<close>\<close>

fun stringOrEmpty :: "'n jsval \<Rightarrow> string" where
  "stringOrEmpty (JStr s) = s"
| "stringOrEmpty v = []"

text \<open>
  The mapping of a response to a calendar in fetchCalendars:
  \<^verbatim>\<open>
  (rs) => {
      const description = rs.props?.calendarDescription;
      const timezone = rs.props?.calendarTimezone;
      return {
          description: typeof description === 'string' ? description : '',
          timezone: typeof timezone === 'string' ? timezone : '',
          url: new URL(rs.href ?? '', account.rootUrl ?? '').href,
          ctag: rs.props?.getctag,
          calendarColor: rs.props?.calendarColor,
          displayName: rs.props?.displayname._cdata ?? rs.props?.displayname,
          components: Array.isArray(...) ? ... : [...],
          resourcetype: Object.keys(rs.props?.resourcetype),
          syncToken: rs.props?.syncToken,
      };
  }
  \<close>
  It throws when the URL constructor refuses the href, when \<open>props\<close> has no
  \<open>displayname\<close>, where the component names throw, and when \<open>resourcetype\<close> is
  nullish (\<open>Object.keys(undefined)\<close>).
\<close>

definition calendarOf ::
  "'u URL_api \<Rightarrow> ('n, 'y) DAVAccount_scheme \<Rightarrow> 'n DAVResponse \<Rightarrow> js_error + 'n DAVCalendar" where
  "calendarOf U account rs =
     (case new_URL U (hrefOrEmpty rs) (Some (rootUrl account)) of
        None \<Rightarrow> Inl TypeError
      | Some u \<Rightarrow>
          (case (case props rs of
                   None \<Rightarrow> Inr JUndefined
                 | Some ps \<Rightarrow>
                     (case js_get_strict (js_get (JObj ps) ''displayname'') ''_cdata'' of
                        Inl e \<Rightarrow> Inl e
                      | Inr cdata \<Rightarrow> Inr (nullish_or cdata (js_get (JObj ps) ''displayname'')))) of
             Inl e \<Rightarrow> Inl e
           | Inr displayName' \<Rightarrow>
               (case componentNames rs of
                  Inl e \<Rightarrow> Inl e
                | Inr components' \<Rightarrow>
                    if nullish_or (propOf rs ''resourcetype'') JUndefined = JUndefined
                    then Inl TypeError
                    else
                    Inr \<lparr>url = URL_href U u,
                         ctag = propOf rs ''getctag'',
                         syncToken = propOf rs ''syncToken'',
                         reports = None,
                         objects = None,
                         objectMultiGet = None,
                         fetchObjects = None,
                         description = stringOrEmpty (propOf rs ''calendarDescription''),
                         timezone = stringOrEmpty (propOf rs ''calendarTimezone''),
                         calendarColor = propOf rs ''calendarColor'',
                         displayName = displayName',
                         components = components',
                         resourcetype = Object_keys (propOf rs ''resourcetype'')\<rparr>)))"

text \<open>
  \<^verbatim>\<open>
  export const supportedReportSet = async (params) => {
    const { collection, headers, proxyUrl = '' } = params;
    const res = await propfind({
      url: collection.url,
      props: { [`${DAVNamespaceShort.DAV}:supported-report-set`]: {} },
      depth: '0', headers, proxyUrl: proxyUrl,
    });
    return (
      res[0]?.props?.supportedReportSet?.supportedReport?.map(
        (sr: { report: any }) => Object.keys(sr.report)[0]
      ) ?? []
    );
  };
  \<close>
  \<open>?.map\<close> guards against a nullish \<open>supportedReport\<close> only: a value that is not an
  array has no \<open>map\<close>, and the call throws.
\<close>

definition supportedReportSet ::
  "'n DAVServer \<Rightarrow> ('n, 'z) DAVCollection_scheme \<Rightarrow> js_error + 'n jsval list" where
  "supportedReportSet S collection =
     (case propfind S (url collection) [''d:supported-report-set''] ''0'' of
        [] \<Rightarrow> Inr []
      | r # _ \<Rightarrow>
          (case js_get (propOf r ''supportedReportSet'') ''supportedReport'' of
             JUndefined \<Rightarrow> Inr []
           | JNull \<Rightarrow> Inr []
           | JArr srs \<Rightarrow>
               mapE (\<lambda>sr. case js_get_strict sr ''report'' of
                             Inl e \<Rightarrow> Inl e
                           | Inr report \<Rightarrow>
                               (case report of
                                  JUndefined \<Rightarrow> Inl TypeError
                                | JNull \<Rightarrow> Inl TypeError
                                | _ \<Rightarrow>
                                    Inr (case Object_keys report of
                                           [] \<Rightarrow> JUndefined
                                         | k # _ \<Rightarrow> JStr k))) srs
           | _ \<Rightarrow> Inl TypeError))"

definition defaultCalendarProps :: "string list" where
  "defaultCalendarProps =
     [''c:calendar-description'', ''c:calendar-timezone'', ''d:displayname'',
      ''ca:calendar-color'', ''cs:getctag'', ''d:resourcetype'',
      ''c:supported-calendar-component-set'', ''d:sync-token'']"

text \<open>
  fetchCalendars (dist/tsdav.esm.js, lines 766 to 823): the account must be given and have
  \<open>homeUrl\<close> and \<open>rootUrl\<close>; the responses of the PROPFIND of depth 1 on \<open>homeUrl\<close>
  pass the two filters, are mapped to calendars, and each calendar gets its \<open>reports\<close>
  from supportedReportSet.
\<close>

definition fetchCalendars ::
  "'n DAVServer \<Rightarrow> 'u URL_api \<Rightarrow> ('n, 'y) DAVAccount_scheme option \<Rightarrow> string list option \<Rightarrow>
   js_error + 'n DAVCalendar list" where
  "fetchCalendars S U account customProps =
     (case account of
        None \<Rightarrow> Inl (Error ''no account for fetchCalendars'')
      | Some acct \<Rightarrow>
          if \<not> hasFields (accountField acct) [''homeUrl'', ''rootUrl''] then
            Inl (Error (''account must have '' @
                        findMissingFieldNames (accountField acct) [''homeUrl'', ''rootUrl''] @
                        '' before fetchCalendars''))
          else
            let res = propfind S (homeUrl acct)
                        (case customProps of None \<Rightarrow> defaultCalendarProps | Some ps \<Rightarrow> ps) ''1''
            in case filterE isICalCalendar (filter isCalendarResource res) of
                 Inl e \<Rightarrow> Inl e
               | Inr rcs \<Rightarrow>
                   (case mapE (calendarOf U acct) rcs of
                      Inl e \<Rightarrow> Inl e
                    | Inr cals \<Rightarrow>
                        mapE (\<lambda>cal. case supportedReportSet S cal of
                                      Inl e \<Rightarrow> Inl e
                                    | Inr rs \<Rightarrow> Inr (cal\<lparr>reports := Some rs\<rparr>)) cals))"

text \<open>What syncCalendars resolves to: the list, or the struct of a detailed result.\<close>

datatype 'n synced_calendars =
    Calendars "'n DAVCalendar list"
  | CalendarsDiff "'n DAVCalendar list" "'n DAVCalendar list" "'n DAVCalendar list"

text \<open>
  The test both \<open>updated\<close> and \<open>unchanged\<close> of syncCalendars apply to a remote calendar
  \<open>rc\<close> and a local one \<open>cal\<close>:
  \<open>(rc.syncToken && rc.syncToken !== cal.syncToken) || (rc.ctag && rc.ctag !== cal.ctag)\<close>
\<close>

definition tagsDiffer ::
  "('n, 'a) js_number_scheme \<Rightarrow> ('n, 'z) DAVCollection_scheme \<Rightarrow> ('n, 'z) DAVCollection_scheme \<Rightarrow> bool" where
  "tagsDiffer N rc cal =
     ((truthy N (syncToken rc) \<and> \<not> strict_eq (syncToken rc) (syncToken cal)) \<or>
      (truthy N (ctag rc) \<and> \<not> strict_eq (ctag rc) (ctag cal)))"

text \<open>
  \<^verbatim>\<open>
  const syncCalendars = (params) => __awaiter(void 0, void 0, void 0, function* () {
      const { oldCalendars, account, detailedResult, headers } = params;
      if (!account) { throw new Error('Must have account before syncCalendars'); }
      const localCalendars = oldCalendars ?? account.calendars ?? [];
      const remoteCalendars = yield fetchCalendars({ account, headers });
      // no existing url
      const created = remoteCalendars.filter((rc) =>
          localCalendars.every((lc) => !urlContains(lc.url, rc.url)));
      // have same url, but syncToken/ctag different
      const updated = localCalendars.reduce((prev, curr) => {
          const found = remoteCalendars.find((rc) => urlContains(rc.url, curr.url));
          if (found &&
              ((found.syncToken && found.syncToken !== curr.syncToken) ||
                  (found.ctag && found.ctag !== curr.ctag))) {
              return [...prev, found];
          }
          return prev;
      }, []);
      const updatedWithObjects = yield Promise.all(updated.map((u) => __awaiter(...) {
          const result = yield smartCollectionSync({
              collection: Object.assign(Object.assign({}, u), { objectMultiGet: calendarMultiGet }),
              method: 'webdav', headers, account,
          });
          return result;
      })));
      // does not present in remote
      const deleted = localCalendars.filter((cal) =>
          remoteCalendars.every((rc) => !urlContains(rc.url, cal.url)));
      const unchanged = localCalendars.filter((cal) =>
          remoteCalendars.some((rc) => urlContains(rc.url, cal.url) &&
              ((rc.syncToken && rc.syncToken !== cal.syncToken) || (rc.ctag && rc.ctag !== cal.ctag))));
      return detailedResult
          ? { created, updated, deleted }
          : [...unchanged, ...created, ...updatedWithObjects];
  });
  \<close>
\<close>

definition createdCalendars :: "'n DAVCalendar list \<Rightarrow> 'n DAVCalendar list \<Rightarrow> 'n DAVCalendar list" where
  "createdCalendars localCalendars remoteCalendars =
     filter (\<lambda>rc. list_all (\<lambda>lc. \<not> urlContains (url lc) (url rc)) localCalendars) remoteCalendars"

definition updatedCalendars ::
  "('n, 'a) js_number_scheme \<Rightarrow> 'n DAVCalendar list \<Rightarrow> 'n DAVCalendar list \<Rightarrow> 'n DAVCalendar list" where
  "updatedCalendars N localCalendars remoteCalendars =
     foldl (\<lambda>prev curr.
              case find (\<lambda>rc. urlContains (url rc) (url curr)) remoteCalendars of
                Some found \<Rightarrow> if tagsDiffer N found curr then prev @ [found] else prev
              | None \<Rightarrow> prev)
       [] localCalendars"

definition deletedCalendars :: "'n DAVCalendar list \<Rightarrow> 'n DAVCalendar list \<Rightarrow> 'n DAVCalendar list" where
  "deletedCalendars localCalendars remoteCalendars =
     filter (\<lambda>cal. list_all (\<lambda>rc. \<not> urlContains (url rc) (url cal)) remoteCalendars) localCalendars"

definition unchangedCalendars ::
  "('n, 'a) js_number_scheme \<Rightarrow> 'n DAVCalendar list \<Rightarrow> 'n DAVCalendar list \<Rightarrow> 'n DAVCalendar list" where
  "unchangedCalendars N localCalendars remoteCalendars =
     filter (\<lambda>cal. list_ex (\<lambda>rc. urlContains (url rc) (url cal) \<and> tagsDiffer N rc cal)
                     remoteCalendars)
       localCalendars"

definition syncCalendars ::
  "('n, 'a) js_number_scheme \<Rightarrow> 'n DAVServer \<Rightarrow> 'u URL_api \<Rightarrow> 'n DAVCalendar list option \<Rightarrow>
   'n DAVAccount option \<Rightarrow> bool \<Rightarrow> js_error + 'n synced_calendars" where
  "syncCalendars N S U oldCalendars account detailedResult =
     (case account of
        None \<Rightarrow> Inl (Error ''Must have account before syncCalendars'')
      | Some acct \<Rightarrow>
          let localCalendars =
                (case oldCalendars of
                   Some cs \<Rightarrow> cs
                 | None \<Rightarrow> (case calendars acct of Some cs \<Rightarrow> cs | None \<Rightarrow> []))
          in case fetchCalendars S U (Some acct) None of
               Inl e \<Rightarrow> Inl e
             | Inr remoteCalendars \<Rightarrow>
                 let created' = createdCalendars localCalendars remoteCalendars;
                     updated' = updatedCalendars N localCalendars remoteCalendars
                 in case mapE (\<lambda>u. smartCollectionSync N S
                                      (u\<lparr>objectMultiGet := Some (calendarMultiGet S)\<rparr>)
                                      (Some Webdav) (Some acct) False) updated' of
                      Inl e \<Rightarrow> Inl e
                    | Inr updatedWithObjects \<Rightarrow>
                        let deleted' = deletedCalendars localCalendars remoteCalendars;
                            unchanged = unchangedCalendars N localCalendars remoteCalendars
                        in Inr (if detailedResult
                                then CalendarsDiff created' updated' deleted'
                                else Calendars (unchanged @ created' @ updatedWithObjects)))"

section \<open>A sample platform\<close>

text \<open>
  An instance of the platform for evaluating the model at concrete inputs: numbers are
  natural numbers, \<open>Number\<close> reads a trimmed string of decimal digits (the empty string
  as 0) and is NaN elsewhere, so it agrees with the platform on the unsigned decimal
  integers the examples use. The transport answers every request with one fixed outcome
  and the decoder returns one fixed tree.
\<close>

definition decimalNumber :: "string \<Rightarrow> nat option" where
  "decimalNumber s =
     (let t = trim s
      in if list_all isDigit t then Some (nat (parseInt t)) else None)"

definition samplePlatform :: "js_error + Response \<Rightarrow> nat jsval \<Rightarrow> nat platform" where
  "samplePlatform outcome tree =
     \<lparr>js_Number = decimalNumber, js_numToString = showNat, js_isZero = (\<lambda>n. n = 0),
      fetch = (\<lambda>target request. outcome),
      js2xml = (\<lambda>nameFn t. []),
      xml2js = (\<lambda>text. Inr tree)\<rparr>"

definition sampleNumber :: "nat js_number" where
  "sampleNumber = \<lparr>js_Number = decimalNumber, js_numToString = showNat, js_isZero = (\<lambda>n. n = 0)\<rparr>"

text \<open>
  A server that answers every PROPFIND with one array and every sync-collection REPORT
  with another, a response with a given href and property bag, a collection at \<open>/c/\<close>
  with a given ctag and snapshot whose \<open>fetchObjects\<close> resolves to a given array, and an
  account that passed discovery.
\<close>

definition sampleServer :: "nat DAVResponse list \<Rightarrow> nat DAVResponse list \<Rightarrow> nat DAVServer" where
  "sampleServer forPropfind forSync =
     \<lparr>propfind = (\<lambda>target names depth. forPropfind),
      syncCollection = (\<lambda>target names level token. forSync),
      calendarMultiGet = (\<lambda>target names objectUrls. Inr [])\<rparr>"

definition sampleResponse :: "string \<Rightarrow> (string \<times> nat jsval) list \<Rightarrow> nat DAVResponse" where
  "sampleResponse h ps =
     \<lparr>status = 200, statusText = ''OK'', ok = True,
      raw = None, href = Some h, error = JUndefined, responsedescription = JUndefined,
      props = Some ps\<rparr>"

definition sampleCollection ::
  "nat jsval \<Rightarrow> nat DAVObject list \<Rightarrow> nat DAVObject list \<Rightarrow> nat DAVCollection" where
  "sampleCollection tag snapshot remote =
     \<lparr>url = ''/c/'', ctag = tag, syncToken = JUndefined, reports = None,
      objects = Some (Objects snapshot), objectMultiGet = None,
      fetchObjects = Some (\<lambda>target. Inr remote)\<rparr>"

definition sampleAccount :: "string \<Rightarrow> nat DAVAccount" where
  "sampleAccount kind =
     \<lparr>accountType = kind, serverUrl = ''https://ex.com'', rootUrl = ''https://ex.com/'',
      principalUrl = ''https://ex.com/p/'', homeUrl = ''https://ex.com/c/'',
      account_proxyUrl = None, calendars = None\<rparr>"

text \<open>
  A multiget callback that answers each requested href with one response carrying a given
  etag, and the response of a sync-collection REPORT for a member that is gone.
\<close>

definition sampleMultiGet ::
  "string \<Rightarrow> string \<Rightarrow> string list \<Rightarrow> string list \<Rightarrow> js_error + nat DAVResponse list" where
  "sampleMultiGet tag target names objectUrls =
     Inr (map (\<lambda>h. sampleResponse h [(''getetag'', JStr tag)]) objectUrls)"

definition notFound :: "string \<Rightarrow> nat DAVResponse" where
  "notFound h = (sampleResponse h [])\<lparr>status := 404, statusText := ''Not Found''\<rparr>"

text \<open>The snapshot and the server's objects of a sync with one update and one new object.\<close>

definition sampleLocalObjects :: "nat DAVObject list" where
  "sampleLocalObjects =
     [\<lparr>url = ''/c/1.ics'', etag = JStr ''a1'', data = None\<rparr>,
      \<lparr>url = ''/c/2.ics'', etag = JStr ''b1'', data = None\<rparr>]"

definition sampleRemoteObjects :: "nat DAVObject list" where
  "sampleRemoteObjects =
     [\<lparr>url = ''/c/1.ics'', etag = JStr ''a2'', data = Some (JStr ''BEGIN:VCALENDAR'')\<rparr>,
      \<lparr>url = ''/c/2.ics'', etag = JStr ''b1'', data = Some (JStr ''BEGIN:VCALENDAR'')\<rparr>,
      \<lparr>url = ''/c/3.ics'', etag = JStr ''c1'', data = Some (JStr ''BEGIN:VCALENDAR'')\<rparr>]"

text \<open>
  A fragment of the platform's URL class, for the examples. It accepts absolute
  \<open>http\<close> and \<open>https\<close> URLs of the shape \<open>scheme://host[:port][/path]\<close> (an empty
  path is serialised as \<open>/\<close>), path-absolute references (\<open>/path\<close>) against such a
  base, and URLs with an opaque path: a scheme of lower-case letters that is not one of
  the special schemes, a colon, and a non-empty path of letters and digits. The last kind
  is how the platform reads \<open>'localhost:8080'\<close>: scheme \<open>localhost:\<close>, path
  \<open>8080\<close>, no host, and href \<open>'localhost:8080'\<close> again; no relative reference can be
  resolved against such a base. An opaque URL is represented with the empty host. Every
  other input is refused; the examples only use that on a string without a scheme and
  without a base, and on a path-absolute reference against an opaque base, both of which
  the platform refuses as well.
\<close>

record sampleURL =
  url_scheme :: string
  url_host :: string
  url_portnum :: string
  url_path :: string

definition parseAbsoluteURL :: "string \<Rightarrow> sampleURL option" where
  "parseAbsoluteURL s =
     (let split = (if startsWith s ''https://'' then Some (''https:'', drop 8 s)
                   else if startsWith s ''http://'' then Some (''http:'', drop 7 s)
                   else None)
      in case split of
           None \<Rightarrow> None
         | Some (sch, rest) \<Rightarrow>
             let authority = takeWhile (\<lambda>c. c \<noteq> CHR ''/'') rest;
                 path = dropWhile (\<lambda>c. c \<noteq> CHR ''/'') rest;
                 host = takeWhile (\<lambda>c. c \<noteq> CHR '':'') authority;
                 port = drop 1 (dropWhile (\<lambda>c. c \<noteq> CHR '':'') authority)
             in if host = [] then None
                else Some \<lparr>url_scheme = sch, url_host = host, url_portnum = port,
                           url_path = (if path = [] then ''/'' else path)\<rparr>)"

definition parseOpaqueURL :: "string \<Rightarrow> sampleURL option" where
  "parseOpaqueURL s =
     (let sch = takeWhile (\<lambda>c. c \<noteq> CHR '':'') s;
          rest = dropWhile (\<lambda>c. c \<noteq> CHR '':'') s
      in if sch \<noteq> [] \<and> list_all (\<lambda>c. c \<in> set ''abcdefghijklmnopqrstuvwxyz'') sch \<and>
            sch \<notin> set [''http'', ''https'', ''ws'', ''wss'', ''ftp'', ''file''] \<and>
            rest \<noteq> [] \<and> tl rest \<noteq> [] \<and>
            list_all (\<lambda>c. c \<in> set ''abcdefghijklmnopqrstuvwxyzABCDEFGHIJKLMNOPQRSTUVWXYZ0123456789'')
              (tl rest)
         then Some \<lparr>url_scheme = sch @ '':'', url_host = [], url_portnum = [],
                    url_path = tl rest\<rparr>
         else None)"

definition sampleURLs :: "sampleURL URL_api" where
  "sampleURLs =
     \<lparr>new_URL = (\<lambda>input base.
        case parseAbsoluteURL input of
          Some u \<Rightarrow> Some u
        | None \<Rightarrow>
            (case parseOpaqueURL input of
               Some u \<Rightarrow> Some u
             | None \<Rightarrow>
                 (case base of
                    None \<Rightarrow> None
                  | Some b \<Rightarrow>
                      (case parseAbsoluteURL b of
                         None \<Rightarrow> None
                       | Some bu \<Rightarrow>
                           if startsWith input ''/'' then Some (bu\<lparr>url_path := input\<rparr>)
                           else None)))),
      URL_href = (\<lambda>u. if url_host u = [] then url_scheme u @ url_path u
                      else url_scheme u @ ''//'' @ url_host u @
                           (if url_portnum u = [] then [] else '':'' @ url_portnum u) @
                           url_path u),
      URL_protocol = url_scheme,
      URL_hostname = url_host,
      URL_port = url_portnum,
      URL_set_protocol = (\<lambda>u p. u\<lparr>url_scheme := p\<rparr>),
      URL_set_port = (\<lambda>u p. u\<lparr>url_portnum := p\<rparr>)\<rparr>"

text \<open>
  A server for fetchCalendars: the PROPFIND of depth 1 is answered with a given array, the
  PROPFIND of depth 0 (supported-report-set) and both REPORTs with the empty array.
\<close>

definition sampleCalendarServer :: "nat DAVResponse list \<Rightarrow> nat DAVServer" where
  "sampleCalendarServer home =
     \<lparr>propfind = (\<lambda>target names depth. if depth = ''1'' then home else []),
      syncCollection = (\<lambda>target names level token. []),
      calendarMultiGet = (\<lambda>target names objectUrls. Inr [])\<rparr>"

text \<open>
  The response of a calendar collection: its href and tags, and the decoded value of
  \<open>supported-calendar-component-set\<close> (\<open>undefined\<close> when the property is not there).
\<close>

definition calendarResponse :: "string \<Rightarrow> string \<Rightarrow> string \<Rightarrow> nat jsval \<Rightarrow> nat DAVResponse" where
  "calendarResponse h tag token componentSet =
     sampleResponse h
       ([(''resourcetype'', JObj [(''collection'', JObj []), (''calendar'', JObj [])]),
         (''displayname'', JStr ''Home''),
         (''getctag'', JStr tag),
         (''syncToken'', JStr token)] @
        (case componentSet of JUndefined \<Rightarrow> [] | v \<Rightarrow> [(''supportedCalendarComponentSet'', v)]))"

definition compSet :: "string list \<Rightarrow> nat jsval" where
  "compSet names =
     (case names of
        [n] \<Rightarrow> JObj [(''comp'', JObj [(''_attributes'', JObj [(''name'', JStr n)])])]
      | _ \<Rightarrow> JObj [(''comp'',
                JArr (map (\<lambda>n. JObj [(''_attributes'', JObj [(''name'', JStr n)])]) names))])"

definition sampleCalendar :: "string \<Rightarrow> string \<Rightarrow> string \<Rightarrow> string list \<Rightarrow> nat DAVCalendar" where
  "sampleCalendar u tag token names =
     \<lparr>url = u, ctag = JStr tag, syncToken = JStr token, reports = Some [],
      objects = None, objectMultiGet = None, fetchObjects = None,
      description = [], timezone = [], calendarColor = JUndefined,
      displayName = JStr ''Home'', components = map JStr names,
      resourcetype = [''collection'', ''calendar'']\<rparr>"

definition sampleRequest :: "string \<Rightarrow> string option \<Rightarrow> nat DAVRequest" where
  "sampleRequest target proxy =
     \<lparr>request_url = target,
      init = \<lparr>method = ''PROPFIND'', headers = Some [(''depth'', ''0'')], namespace = ''d'',
              body = JObj [], attributes = JUndefined\<rparr>,
      convertIncoming = None, parseOutgoing = None, proxyUrl = proxy\<rparr>"

definition multistatusResponse :: "string \<Rightarrow> string \<Rightarrow> Response" where
  "multistatusResponse target xml =
     \<lparr>status = 207, statusText = ''Multi-Status'', ok = True,
      response_url = target, content_type = Some ''application/xml; charset=utf-8'',
      location = None, body_text = xml\<rparr>"

definition errorFalseBody :: string where
  "errorFalseBody =
     ''<d:multistatus xmlns:d=\"DAV:\"><d:response><d:href>/cal/</d:href>'' @
     ''<d:error>false</d:error></d:response></d:multistatus>''"

section \<open>Facts about the string functions\<close>

lemma startsWith_iff_prefix: "startsWith s n = prefix n s"
  by (induction s n rule: startsWith.induct) auto

lemma str_includes_iff_sublist: "str_includes s n = sublist n s"
proof (induction s)
  case Nil
  show ?case by simp
next
  case (Cons c cs)
  then show ?case
    by (simp add: sublist_Cons_right startsWith_iff_prefix del: startsWith.simps)
qed

lemma dropWhile_sublist: "sublist (dropWhile P xs) xs"
proof -
  have "xs = takeWhile P xs @ dropWhile P xs @ []" by simp
  then show ?thesis unfolding sublist_def by blast
qed

lemma trim_sublist: "sublist (trim s) s"
proof -
  have "sublist (dropWhile isWhiteSpace (rev (dropWhile isWhiteSpace s)))
          (rev (dropWhile isWhiteSpace s))"
    by (rule dropWhile_sublist)
  then have "sublist (trim s) (dropWhile isWhiteSpace s)"
    unfolding trim_def by (metis rev_rev_ident sublist_rev)
  then show ?thesis
    using dropWhile_sublist sublist_order.order_trans by blast
qed

lemma stripTrailingSlash_sublist: "sublist (stripTrailingSlash s) s"
proof (cases "s \<noteq> [] \<and> last s = CHR ''/''")
  case True
  then have "butlast s @ [last s] = s" by (intro append_butlast_last_id) simp
  then have "s = [] @ butlast s @ [last s]" by simp
  then have "sublist (butlast s) s" unfolding sublist_def by blast
  with True show ?thesis by (simp add: stripTrailingSlash_def)
next
  case False
  then show ?thesis by (auto simp: stripTrailingSlash_def)
qed

lemma stripped_sublist: "sublist (stripTrailingSlash (trim s)) s"
  using stripTrailingSlash_sublist trim_sublist sublist_order.order_trans by blast

lemma urlContains_sym: "urlContains a b = urlContains b a"
  by (auto simp: urlContains_def Let_def)

lemma urlContains_refl: "urlContains a a"
  by (simp add: urlContains_def Let_def str_includes_iff_sublist stripped_sublist)

section \<open>Claims about urlContains\<close>

text \<open>
  C5 (as stated, refuted). The claim reads: for all strings a and b, urlContains(a, b) is
  true iff, after trimming and stripping one trailing slash from each, either result
  contains the other. Two inputs separate the code from this reading. With
  \<open>a = ''\<close> and \<open>b = 'abc'\<close> the guard \<open>!urlA || !urlB\<close> answers false although the
  empty string is a substring of \<open>'abc'\<close>. With \<open>a = 'ab/'\<close> and \<open>b = 'b//'\<close> the code
  searches the original \<open>'ab/'\<close> for the stripped \<open>'b/'\<close> and answers true, although
  neither of the stripped strings \<open>'ab'\<close> and \<open>'b/'\<close> contains the other.
\<close>

theorem urlContains_spec_counterexample:
  "urlContains [] ''abc'' = False \<and> urlContains_spec [] ''abc'' = True \<and>
   urlContains ''ab/'' ''b//'' = True \<and> urlContains_spec ''ab/'' ''b//'' = False"
  by (simp add: urlContains_def urlContains_spec_def Let_def trim_def isWhiteSpace_def
      stripTrailingSlash_def str_includes_iff_sublist [symmetric])

text \<open>
  C5 (amended). For all strings a and b, urlContains(a, b) is true iff both are empty, or
  both are non-empty and the original a contains the trimmed and slash-stripped b as a
  substring or the original b contains the trimmed and slash-stripped a. Trimming removes
  the no-break space as well: for a the character U+00A0 followed by \<open>ab\<close>, and b
  the string \<open>zab\<close>, the result is true.
\<close>

theorem urlContains_characterisation:
  "urlContains a b \<longleftrightarrow>
     (a = [] \<and> b = []) \<or>
     (a \<noteq> [] \<and> b \<noteq> [] \<and>
      ((\<exists>ps ss. a = ps @ stripTrailingSlash (trim b) @ ss) \<or>
       (\<exists>ps ss. b = ps @ stripTrailingSlash (trim a) @ ss)))"
  by (auto simp: urlContains_def Let_def str_includes_iff_sublist sublist_def)

theorem urlContains_characterisation_witness:
  "urlContains ''https://ex.com/cal/'' '' /cal/ '' \<and>
   \<not> urlContains ''/cal/1.ics'' ''/cal/2.ics'' \<and>
   urlContains (CHR 0xA0 # ''ab'') ''zab''"
proof -
  have "''https://ex.com/cal/'' = ''https://ex.com'' @ stripTrailingSlash (trim '' /cal/ '') @ ''/''"
    by (simp add: trim_def isWhiteSpace_def stripTrailingSlash_def)
  then have 1: "urlContains ''https://ex.com/cal/'' '' /cal/ ''"
    using urlContains_characterisation [of "''https://ex.com/cal/''" "'' /cal/ ''"] by blast
  have 2: "\<not> urlContains ''/cal/1.ics'' ''/cal/2.ics''"
    by (simp add: urlContains_def Let_def trim_def isWhiteSpace_def stripTrailingSlash_def)
  have "''zab'' = ''z'' @ stripTrailingSlash (trim (CHR 0xA0 # ''ab'')) @ []"
    by (simp add: trim_def isWhiteSpace_def stripTrailingSlash_def)
  then have 3: "urlContains (CHR 0xA0 # ''ab'') ''zab''"
    using urlContains_characterisation [of "CHR 0xA0 # ''ab''" "''zab''"] by blast
  from 1 2 3 show ?thesis by simp
qed

section \<open>Claims about davRequest\<close>

text \<open>
  C1 (the code departs from the claim). The claim reads: with a configured proxyUrl the
  request is issued against proxyUrl + url. davRequest reads \<open>proxyUrl\<close> out of its
  parameters and never uses it: whatever the parameters, the one request of a call (a
  call with \<open>init.headers\<close>; without them it throws before the request) goes to the
  constant \<open>__PROXY_URL__\<close> followed by \<open>url\<close>. With
  \<open>url = 'https://ex.com/dav/'\<close> and \<open>proxyUrl = 'https://proxy.example/'\<close> it goes
  to \<open>'http://localhost:8001/https://ex.com/dav/'\<close>.
\<close>

theorem davRequest_ignores_proxyUrl:
  assumes "headers (init params) = Some hs"
  shows "map fst (snd (davRequest P params sent)) =
     map fst sent @ [''http://localhost:8001/'' @ request_url params]"
  using assms by (simp add: davRequest_def Let_def PROXY_URL_def split: sum.splits)

theorem davRequest_ignores_proxyUrl_witness:
  "map fst (snd (davRequest (samplePlatform (Inl NetworkError) JUndefined)
      (sampleRequest ''https://ex.com/dav/'' (Some ''https://proxy.example/'')) [])) =
     [''http://localhost:8001/https://ex.com/dav/''] \<and>
   ''http://localhost:8001/https://ex.com/dav/'' \<noteq>
     ''https://proxy.example/'' @ ''https://ex.com/dav/''"
  using davRequest_ignores_proxyUrl
    [where P = "samplePlatform (Inl NetworkError) JUndefined"
       and params = "sampleRequest ''https://ex.com/dav/'' (Some ''https://proxy.example/'')"
       and hs = "[(''depth'', ''0'')]" and sent = "[]"]
  by (simp add: sampleRequest_def)



text \<open>
  C7 (the code departs from the claim). The claim reads: \<open>ok\<close> is true iff the response
  element carried no \<open>error\<close> child. The code computes \<open>ok\<close> as \<open>!responseBody.error\<close>,
  the negated truthiness of the decoded value, and the decoder has replaced an \<open>error\<close>
  element that holds only text by \<open>nativeType\<close> of the text. For a multistatus body
  whose one response is \<open><d:href>/cal/</d:href><d:error>false</d:error>\<close> the decoded
  response is \<open>{href: '/cal/', error: false}\<close>: it has the \<open>error\<close>
  property, and davRequest reports \<open>ok = true\<close>.
\<close>

theorem mapResponseBody_ok:
  "truthy N responseBody \<Longrightarrow>
   ok (mapResponseBody N davResponse result responseBody) =
     (\<not> truthy N (js_get responseBody ''error''))"
  by (simp add: mapResponseBody_def Let_def)

theorem mapResponseBody_ok_witness:
  "nativeType sampleNumber ''false'' = JBool False \<and>
   ''error'' \<in> set (Object_keys (JObj [(''href'', JStr ''/cal/''), (''error'', JBool False)] :: nat jsval)) \<and>
   ok (mapResponseBody sampleNumber (multistatusResponse ''/cal/'' errorFalseBody) JUndefined
         (JObj [(''href'', JStr ''/cal/''), (''error'', JBool False)])) = True \<and>
   map ok (projr (fst (davRequest
      (samplePlatform (Inr (multistatusResponse ''/cal/'' errorFalseBody))
        (JObj [(''multistatus'',
           JObj [(''response'', JObj [(''href'', JStr ''/cal/''), (''error'', JBool False)])])]))
      (sampleRequest ''/cal/'' None) []))) = [True]"
proof -
  have 1: "nativeType sampleNumber ''false'' = JBool False"
    by (simp add: nativeType_def sampleNumber_def decimalNumber_def trim_def isWhiteSpace_def
        isDigit_def toLowerCase_def)
  have 2: "ok (mapResponseBody sampleNumber (multistatusResponse ''/cal/'' errorFalseBody) JUndefined
         (JObj [(''href'', JStr ''/cal/''), (''error'', JBool False)])) = True"
    using mapResponseBody_ok
      [of sampleNumber "JObj [(''href'', JStr ''/cal/''), (''error'', JBool False)]"
          "multistatusResponse ''/cal/'' errorFalseBody" JUndefined]
    by simp
  have 3: "map ok (projr (fst (davRequest
      (samplePlatform (Inr (multistatusResponse ''/cal/'' errorFalseBody))
        (JObj [(''multistatus'',
           JObj [(''response'', JObj [(''href'', JStr ''/cal/''), (''error'', JBool False)])])]))
      (sampleRequest ''/cal/'' None) []))) = [True]"
    by (simp add: davRequest_def Let_def samplePlatform_def multistatusResponse_def
        mapResponseBody_def sampleRequest_def)
  from 1 2 3 show ?thesis by simp
qed

section \<open>Claims about isCollectionDirty and smartCollectionSync\<close>

lemma sample_urls:
  "urlContains ''/c/'' ''/c/''"
  "urlContains ''/c/1.vcf'' ''/c/1.vcf''"
  "urlContains ''https://ex.com/c/'' ''https://ex.com/c/1.ics''"
  "urlContains ''/c/1.ics'' ''https://ex.com/c/1.ics''"
  "\<not> urlContains ''https://ex.com/c/'' ''/c/1.ics''"
  by (simp_all add: urlContains_def Let_def trim_def isWhiteSpace_def stripTrailingSlash_def)

text \<open>
  C10. The decoder turns the text of \<open>getctag\<close> into a number when \<open>Number\<close> can read it.
  When the stored ctag of the collection is the string form of that number,
  isCollectionDirty compares a string with a number by \<open>!==\<close> and reports
  \<open>isDirty = true\<close>, and its \<open>newCtag\<close> is the stored string again.
\<close>

theorem isCollectionDirty_numeric_ctag:
  assumes "filter (\<lambda>r. urlContains (url collection) (hrefOrEmpty r))
             (propfind S (url collection) [''cs:getctag''] ''0'') = res # rest"
    and "js_Number N text = Some n"
    and "propOf res ''getctag'' = nativeType N text"
    and "ctag collection = JStr (js_numToString N n)"
  shows "isCollectionDirty N S collection =
           Inr \<lparr>isDirty = True, newCtag = Some (js_numToString N n)\<rparr>"
  using assms by (simp add: isCollectionDirty_def Let_def nativeType_def)

theorem isCollectionDirty_numeric_ctag_witness:
  "isCollectionDirty sampleNumber
     (sampleServer [sampleResponse ''/c/'' [(''getctag'', nativeType sampleNumber ''12345'')]] [])
     (sampleCollection (JStr ''12345'') [] []) =
   Inr \<lparr>isDirty = True, newCtag = Some ''12345''\<rparr>"
proof -
  have n: "js_Number sampleNumber ''12345'' = Some 12345"
    by (simp add: sampleNumber_def decimalNumber_def trim_def isWhiteSpace_def isDigit_def
        parseInt_def digitValue_def)
  have s: "js_numToString sampleNumber 12345 = ''12345''"
    by (simp add: sampleNumber_def showNat.simps)
  have f: "filter (\<lambda>r. urlContains (url (sampleCollection (JStr ''12345'') [] [])) (hrefOrEmpty r))
             (propfind (sampleServer [sampleResponse ''/c/'' [(''getctag'', nativeType sampleNumber ''12345'')]] [])
                (url (sampleCollection (JStr ''12345'') [] [])) [''cs:getctag''] ''0'') =
           sampleResponse ''/c/'' [(''getctag'', nativeType sampleNumber ''12345'')] # []"
    by (simp add: sampleServer_def sampleCollection_def sampleResponse_def hrefOrEmpty_def sample_urls)
  have p: "propOf (sampleResponse ''/c/'' [(''getctag'', nativeType sampleNumber ''12345'')]) ''getctag'' =
             nativeType sampleNumber ''12345''"
    by (simp add: propOf_def sampleResponse_def)
  have c: "ctag (sampleCollection (JStr ''12345'') [] []) = JStr (js_numToString sampleNumber 12345)"
    by (simp add: s sampleCollection_def)
  show ?thesis
    using isCollectionDirty_numeric_ctag [OF f n p c] by (simp add: s)
qed

subsection \<open>The diff lists\<close>

lemma updatedObjects_foldl:
  "set (foldl (\<lambda>prev curr.
              case find (\<lambda>ro. urlContains (url ro) (url curr)) R of
                Some found \<Rightarrow>
                  if truthy N (etag found) \<and> \<not> strict_eq (etag found) (etag curr)
                  then prev @ [found] else prev
              | None \<Rightarrow> prev) acc L) =
   set acc \<union> {x. \<exists>lo \<in> set L. find (\<lambda>ro. urlContains (url ro) (url lo)) R = Some x \<and>
                   truthy N (etag x) \<and> \<not> strict_eq (etag x) (etag lo)}"
proof (induction L arbitrary: acc)
  case Nil
  show ?case by simp
next
  case (Cons lo L)
  show ?case
    by (cases "find (\<lambda>ro. urlContains (url ro) (url lo)) R") (auto simp: Cons.IH)
qed

lemma set_updatedObjects:
  "set (updatedObjects N L R) =
     {x. \<exists>lo \<in> set L. find (\<lambda>ro. urlContains (url ro) (url lo)) R = Some x \<and>
           truthy N (etag x) \<and> \<not> strict_eq (etag x) (etag lo)}"
  unfolding updatedObjects_def by (simp add: updatedObjects_foldl)

lemma updatedObjects_remote:
  assumes "x \<in> set (updatedObjects N L R)"
  shows "x \<in> set R \<and> (\<exists>lo \<in> set L. urlContains (url x) (url lo)) \<and> truthy N (etag x)"
proof -
  from assms obtain lo where lo: "lo \<in> set L"
      "find (\<lambda>ro. urlContains (url ro) (url lo)) R = Some x" "truthy N (etag x)"
    by (auto simp: set_updatedObjects)
  from lo(2) have "x \<in> set R" "urlContains (url x) (url lo)"
    by (auto simp: find_Some_iff)
  with lo show ?thesis by blast
qed

lemma set_createdObjects:
  "set (createdObjects L R) = {r \<in> set R. \<forall>lo \<in> set L. \<not> urlContains (url lo) (url r)}"
  by (auto simp: createdObjects_def list_all_iff)

lemma set_unchangedObjects:
  "set (unchangedObjects L R) =
     {lo \<in> set L. \<exists>ro \<in> set R. urlContains (url lo) (url ro) \<and> strict_eq (etag ro) (etag lo)}"
  by (auto simp: unchangedObjects_def list_ex_iff)

lemma set_deletedBasic:
  "set (deletedBasic L R) = {lo \<in> set L. \<forall>ro \<in> set R. \<not> urlContains (url ro) (url lo)}"
  by (auto simp: deletedBasic_def list_all_iff)

lemma created_updated_remote:
  assumes "x \<in> set (createdObjects L R) \<union> set (updatedObjects N L R)"
  shows "x \<in> set R"
  using assms updatedObjects_remote by (auto simp: set_createdObjects)

lemma created_updated_url_disjoint:
  "url ` set (createdObjects L R) \<inter> url ` set (updatedObjects N L R) = {}"
proof -
  have False if c: "c \<in> set (createdObjects L R)" and u: "u \<in> set (updatedObjects N L R)"
      and eq: "url c = url u" for c u
  proof -
    from u obtain lo where "lo \<in> set L" "urlContains (url u) (url lo)"
      using updatedObjects_remote by blast
    then have "lo \<in> set L" "urlContains (url lo) (url c)"
      using urlContains_sym eq by auto
    moreover from c have "\<forall>lo \<in> set L. \<not> urlContains (url lo) (url c)"
      by (simp add: set_createdObjects)
    ultimately show False by blast
  qed
  then show ?thesis by blast
qed

lemma deletedBasic_url_disjoint:
  assumes d: "d \<in> set (deletedBasic L R)"
    and x: "x \<in> set (createdObjects L R) \<union> set (updatedObjects N L R)"
  shows "\<not> urlContains (url x) (url d)"
proof -
  from x have "x \<in> set R" by (rule created_updated_remote)
  moreover from d have "\<forall>ro \<in> set R. \<not> urlContains (url ro) (url d)"
    by (simp add: set_deletedBasic)
  ultimately show ?thesis by blast
qed

lemma url_deletedWebdav: "url ` set (deletedWebdav us) = set us"
  by (force simp: deletedWebdav_def)

lemma deletedWebdav_url_disjoint:
  assumes "url ` set R \<inter> set us = {}"
  shows "url ` set (deletedWebdav us) \<inter>
           url ` (set (createdObjects L R) \<union> set (updatedObjects N L R)) = {}"
proof -
  have "url ` (set (createdObjects L R) \<union> set (updatedObjects N L R)) \<subseteq> url ` set R"
    using created_updated_remote by blast
  with assms show ?thesis unfolding url_deletedWebdav by blast
qed

lemma union_covered_by_remote:
  assumes "x \<in> set (unchangedObjects L R @ createdObjects L R @ updatedObjects N L R)"
  shows "\<exists>r \<in> set R. urlContains (url x) (url r)"
proof -
  from assms consider "x \<in> set (unchangedObjects L R)" | "x \<in> set (createdObjects L R)"
    | "x \<in> set (updatedObjects N L R)" by auto
  then show ?thesis
  proof cases
    case 1 then show ?thesis by (auto simp: set_unchangedObjects)
  next
    case 2 then show ?thesis using urlContains_refl by (auto simp: set_createdObjects)
  next
    case 3 then show ?thesis using updatedObjects_remote urlContains_refl by blast
  qed
qed

lemma remote_covered_by_union:
  assumes A1: "\<forall>r \<in> set R. truthy N (etag r)"
    and A2: "\<forall>lo \<in> set L. \<forall>r1 \<in> set R. \<forall>r2 \<in> set R.
               urlContains (url r1) (url lo) \<and> urlContains (url r2) (url lo) \<longrightarrow>
               urlContains (url r1) (url r2)"
    and r: "r \<in> set R"
  shows "\<exists>x \<in> set (unchangedObjects L R @ createdObjects L R @ updatedObjects N L R).
           urlContains (url x) (url r)"
proof (cases "\<forall>lo \<in> set L. \<not> urlContains (url lo) (url r)")
  case True
  with r have "r \<in> set (createdObjects L R)" by (simp add: set_createdObjects)
  then show ?thesis using urlContains_refl by auto
next
  case False
  then obtain lo where lo: "lo \<in> set L" "urlContains (url lo) (url r)" by blast
  then have "urlContains (url r) (url lo)" using urlContains_sym by blast
  with r have "find (\<lambda>ro. urlContains (url ro) (url lo)) R \<noteq> None"
    by (auto simp: find_None_iff)
  then obtain found where f: "find (\<lambda>ro. urlContains (url ro) (url lo)) R = Some found" by blast
  then have fR: "found \<in> set R" and fm: "urlContains (url found) (url lo)"
    by (auto simp: find_Some_iff)
  show ?thesis
  proof (cases "strict_eq (etag found) (etag lo)")
    case True
    with lo fR fm have "lo \<in> set (unchangedObjects L R)"
      using urlContains_sym by (auto simp: set_unchangedObjects)
    with lo(2) show ?thesis by auto
  next
    case False
    with f lo(1) A1 fR have "found \<in> set (updatedObjects N L R)"
      by (auto simp: set_updatedObjects)
    moreover have "urlContains (url found) (url r)"
      using A2 lo(1) fR r fm \<open>urlContains (url r) (url lo)\<close> by blast
    ultimately show ?thesis by auto
  qed
qed

text \<open>
  What a run returns, in terms of the diff lists: under the webdav strategy, and under the
  basic strategy when the collection is dirty.
\<close>

lemma smartCollectionSync_webdav_result:
  assumes "hasFields (accountField acct) [''accountType'', ''homeUrl'']"
    and "chosenMethod method' collection = Webdav"
    and "localObjectsOf collection = Inr L"
    and "result = syncCollection S (url collection)
           [''d:getetag'', dataPropName (accountType acct), ''d:displayname''] 1 (syncToken collection)"
    and "webdavRemoteObjects collection (accountType acct) result = Inr R"
  shows "smartCollectionSync N S collection method' (Some acct) detailed =
     Inr (collection
       \<lparr>objects :=
          Some (if detailed
                then Diff (createdObjects L R) (updatedObjects N L R)
                       (deletedWebdav (deletedObjectUrlsOf (accountType acct) result))
                else Objects (unchangedObjects L R @ createdObjects L R @ updatedObjects N L R)),
        syncToken := nullish_or (firstSyncToken result) (syncToken collection)\<rparr>)"
  using assms by (simp add: smartCollectionSync_def Let_def)

lemma smartCollectionSync_basic_dirty_result:
  assumes "hasFields (accountField acct) [''accountType'', ''homeUrl'']"
    and "chosenMethod method' collection = Basic"
    and "localObjectsOf collection = Inr L"
    and "isCollectionDirty N S collection = Inr d"
    and "isDirty d"
    and "basicRemoteObjects collection = Inr R"
  shows "smartCollectionSync N S collection method' (Some acct) detailed =
     Inr (collection
       \<lparr>objects :=
          Some (if detailed
                then Diff (createdObjects L R) (updatedObjects N L R) (deletedBasic L R)
                else Objects (unchangedObjects L R @ createdObjects L R @ updatedObjects N L R)),
        ctag := (case newCtag d of None \<Rightarrow> JUndefined | Some c \<Rightarrow> JStr c)\<rparr>)"
  using assms by (simp add: smartCollectionSync_def Let_def)

lemma sample_urls2:
  "urlContains ''/c/1.ics'' ''/c/1.ics''"
  "urlContains ''/c/2.ics'' ''/c/2.ics''"
  "urlContains ''/c/3.ics'' ''/c/3.ics''"
  "\<not> urlContains ''/c/1.ics'' ''/c/2.ics''"
  "\<not> urlContains ''/c/1.ics'' ''/c/3.ics''"
  "\<not> urlContains ''/c/2.ics'' ''/c/1.ics''"
  "\<not> urlContains ''/c/2.ics'' ''/c/3.ics''"
  "\<not> urlContains ''/c/3.ics'' ''/c/1.ics''"
  "\<not> urlContains ''/c/3.ics'' ''/c/2.ics''"
  by (simp_all add: urlContains_def Let_def trim_def isWhiteSpace_def stripTrailingSlash_def)

lemma sample_urls3:
  "urlContains ''https://ex.com/c/1.ics'' ''https://ex.com/c/''"
  "urlContains ''https://ex.com/c/1.ics'' ''/c/1.ics''"
  "\<not> urlContains ''/c/1.ics'' ''https://ex.com/c/''"
  by (simp_all add: urlContains_def Let_def trim_def isWhiteSpace_def stripTrailingSlash_def)

lemma sample_diff_lists:
  "unchangedObjects sampleLocalObjects sampleRemoteObjects =
     [\<lparr>url = ''/c/2.ics'', etag = JStr ''b1'', data = None\<rparr>]"
  "createdObjects sampleLocalObjects sampleRemoteObjects =
     [\<lparr>url = ''/c/3.ics'', etag = JStr ''c1'', data = Some (JStr ''BEGIN:VCALENDAR'')\<rparr>]"
  "updatedObjects sampleNumber sampleLocalObjects sampleRemoteObjects =
     [\<lparr>url = ''/c/1.ics'', etag = JStr ''a2'', data = Some (JStr ''BEGIN:VCALENDAR'')\<rparr>]"
  "deletedBasic sampleLocalObjects sampleRemoteObjects = []"
  by (simp_all add: sampleLocalObjects_def sampleRemoteObjects_def unchangedObjects_def
      createdObjects_def updatedObjects_def deletedBasic_def sample_urls2)

lemma sample_isCollectionDirty:
  assumes "url collection = ''/c/''" and "ctag collection = JStr old"
  shows "isCollectionDirty sampleNumber
     (sampleServer [sampleResponse ''/c/'' [(''getctag'', JStr tag)]] []) collection =
   Inr \<lparr>isDirty = (old \<noteq> tag), newCtag = Some tag\<rparr>"
  using assms
  by (simp add: isCollectionDirty_def sampleServer_def sampleResponse_def
      hrefOrEmpty_def propOf_def sample_urls)

lemma sample_account_ready:
  "hasFields (accountField (sampleAccount kind)) [''accountType'', ''homeUrl''] = (kind \<noteq> [])"
  by (simp add: hasFields_def accountField_def sampleAccount_def)

text \<open>
  C4 (as stated, refuted). The claim reads: whenever the basic strategy is chosen and
  isCollectionDirty reports \<open>isDirty = false\<close>, smartCollectionSync returns the input
  collection unchanged. The function awaits \<open>collection.fetchObjects\<close> and computes the
  four lists of the diff before it looks at \<open>isDirty\<close>, so a clean collection can make
  it throw instead of return. In the first run the server's ctag \<open>X\<close> equals the stored
  one and \<open>fetchObjects\<close> rejects with a network error: the sync rejects with that
  error. In the second the collection is the result of an earlier clean sync with
  \<open>detailedResult\<close>, so its \<open>objects\<close> is the struct
  \<open>{created: [], updated: [], deleted: []}\<close>: \<open>localObjects.reduce\<close> is not a
  function and the sync throws a TypeError.
\<close>

theorem smartCollectionSync_clean_counterexample:
  "isCollectionDirty sampleNumber
     (sampleServer [sampleResponse ''/c/'' [(''getctag'', JStr ''X'')]] [])
     ((sampleCollection (JStr ''X'') sampleLocalObjects [])
        \<lparr>fetchObjects := Some (\<lambda>target. Inl NetworkError)\<rparr>) =
     Inr \<lparr>isDirty = False, newCtag = Some ''X''\<rparr> \<and>
   smartCollectionSync sampleNumber
     (sampleServer [sampleResponse ''/c/'' [(''getctag'', JStr ''X'')]] [])
     ((sampleCollection (JStr ''X'') sampleLocalObjects [])
        \<lparr>fetchObjects := Some (\<lambda>target. Inl NetworkError)\<rparr>)
     None (Some (sampleAccount ''caldav'')) False =
     Inl NetworkError \<and>
   isCollectionDirty sampleNumber
     (sampleServer [sampleResponse ''/c/'' [(''getctag'', JStr ''X'')]] [])
     ((sampleCollection (JStr ''X'') [] sampleRemoteObjects)
        \<lparr>objects := Some (Diff [] [] [])\<rparr>) =
     Inr \<lparr>isDirty = False, newCtag = Some ''X''\<rparr> \<and>
   smartCollectionSync sampleNumber
     (sampleServer [sampleResponse ''/c/'' [(''getctag'', JStr ''X'')]] [])
     ((sampleCollection (JStr ''X'') [] sampleRemoteObjects)
        \<lparr>objects := Some (Diff [] [] [])\<rparr>)
     None (Some (sampleAccount ''caldav'')) False =
     Inl TypeError"
proof -
  have u: "url ((sampleCollection (JStr ''X'') sampleLocalObjects [])
             \<lparr>fetchObjects := Some (\<lambda>target. Inl NetworkError)\<rparr>) = ''/c/''"
    "url ((sampleCollection (JStr ''X'') [] sampleRemoteObjects)
             \<lparr>objects := Some (Diff [] [] [])\<rparr>) = ''/c/''"
    and c: "ctag ((sampleCollection (JStr ''X'') sampleLocalObjects [])
             \<lparr>fetchObjects := Some (\<lambda>target. Inl NetworkError)\<rparr>) = JStr ''X''"
    "ctag ((sampleCollection (JStr ''X'') [] sampleRemoteObjects)
             \<lparr>objects := Some (Diff [] [] [])\<rparr>) = JStr ''X''"
    by (simp_all add: sampleCollection_def)
  show ?thesis
    by (simp add: smartCollectionSync_def Let_def sample_account_ready
        sample_isCollectionDirty [OF u(1) c(1)] sample_isCollectionDirty [OF u(2) c(2)])
       (simp add: chosenMethod_def basicRemoteObjects_def localObjectsOf_def sampleCollection_def)
qed

text \<open>
  C4 (amended). When the account has its required fields, the basic strategy is chosen,
  isCollectionDirty reports \<open>isDirty = false\<close>, the collection's \<open>fetchObjects\<close>
  resolves (or is absent) and the collection's \<open>objects\<close> is an array (or absent),
  smartCollectionSync returns the input collection itself (so with the same ctag,
  syncToken and objects); with \<open>detailedResult\<close> it returns the input collection with
  \<open>objects\<close> replaced by the empty diff \<open>{created: [], updated: [], deleted: []}\<close>.
  In the example the snapshot holds two objects and the server three, one of them new and
  one with another etag: the run with the ctag unchanged returns the collection as it
  was, where the same run with a new ctag on the server returns the merged list.
\<close>

theorem smartCollectionSync_clean:
  assumes "hasFields (accountField acct) [''accountType'', ''homeUrl'']"
    and "chosenMethod method' collection = Basic"
    and "isCollectionDirty N S collection = Inr d"
    and "\<not> isDirty d"
    and "basicRemoteObjects collection = Inr remoteObjects"
    and "localObjectsOf collection = Inr localObjects"
  shows "smartCollectionSync N S collection method' (Some acct) False = Inr collection \<and>
         smartCollectionSync N S collection method' (Some acct) True =
           Inr (collection\<lparr>objects := Some (Diff [] [] [])\<rparr>)"
  using assms by (simp add: smartCollectionSync_def Let_def)

theorem smartCollectionSync_clean_witness:
  "smartCollectionSync sampleNumber
     (sampleServer [sampleResponse ''/c/'' [(''getctag'', JStr ''X'')]] [])
     (sampleCollection (JStr ''X'') sampleLocalObjects sampleRemoteObjects)
     None (Some (sampleAccount ''caldav'')) False =
     Inr (sampleCollection (JStr ''X'') sampleLocalObjects sampleRemoteObjects) \<and>
   smartCollectionSync sampleNumber
     (sampleServer [sampleResponse ''/c/'' [(''getctag'', JStr ''X'')]] [])
     (sampleCollection (JStr ''X'') sampleLocalObjects sampleRemoteObjects)
     None (Some (sampleAccount ''caldav'')) True =
     Inr ((sampleCollection (JStr ''X'') sampleLocalObjects sampleRemoteObjects)
            \<lparr>objects := Some (Diff [] [] [])\<rparr>) \<and>
   objects (sampleCollection (JStr ''X'') sampleLocalObjects sampleRemoteObjects) =
     Some (Objects
       [\<lparr>url = ''/c/1.ics'', etag = JStr ''a1'', data = None\<rparr>,
        \<lparr>url = ''/c/2.ics'', etag = JStr ''b1'', data = None\<rparr>]) \<and>
   smartCollectionSync sampleNumber
     (sampleServer [sampleResponse ''/c/'' [(''getctag'', JStr ''Y'')]] [])
     (sampleCollection (JStr ''X'') sampleLocalObjects sampleRemoteObjects)
     None (Some (sampleAccount ''caldav'')) False =
     Inr ((sampleCollection (JStr ''X'') sampleLocalObjects sampleRemoteObjects)
            \<lparr>objects := Some (Objects
               [\<lparr>url = ''/c/2.ics'', etag = JStr ''b1'', data = None\<rparr>,
                \<lparr>url = ''/c/3.ics'', etag = JStr ''c1'', data = Some (JStr ''BEGIN:VCALENDAR'')\<rparr>,
                \<lparr>url = ''/c/1.ics'', etag = JStr ''a2'', data = Some (JStr ''BEGIN:VCALENDAR'')\<rparr>]),
             ctag := JStr ''Y''\<rparr>)"
proof -
  let ?S = "sampleServer [sampleResponse ''/c/'' [(''getctag'', JStr ''X'')]] []"
  let ?C = "sampleCollection (JStr ''X'') sampleLocalObjects sampleRemoteObjects"
  have u: "url ?C = ''/c/''" and c: "ctag ?C = JStr ''X''"
    by (simp_all add: sampleCollection_def)
  have d: "isCollectionDirty sampleNumber ?S ?C = Inr \<lparr>isDirty = False, newCtag = Some ''X''\<rparr>"
    by (simp add: sample_isCollectionDirty [OF u c])
  have a: "hasFields (accountField (sampleAccount ''caldav'')) [''accountType'', ''homeUrl'']"
    by (simp add: sample_account_ready)
  have m: "chosenMethod None ?C = Basic"
    by (simp add: chosenMethod_def sampleCollection_def)
  have r: "basicRemoteObjects ?C = Inr sampleRemoteObjects"
    by (simp add: basicRemoteObjects_def sampleCollection_def)
  have l: "localObjectsOf ?C = Inr sampleLocalObjects"
    by (simp add: localObjectsOf_def sampleCollection_def)
  have clean: "smartCollectionSync sampleNumber ?S ?C None (Some (sampleAccount ''caldav'')) False =
        Inr ?C \<and>
      smartCollectionSync sampleNumber ?S ?C None (Some (sampleAccount ''caldav'')) True =
        Inr (?C\<lparr>objects := Some (Diff [] [] [])\<rparr>)"
    using smartCollectionSync_clean [OF a m d _ r l] by simp
  have o: "objects ?C = Some (Objects
       [\<lparr>url = ''/c/1.ics'', etag = JStr ''a1'', data = None\<rparr>,
        \<lparr>url = ''/c/2.ics'', etag = JStr ''b1'', data = None\<rparr>])"
    by (simp add: sampleCollection_def sampleLocalObjects_def)
  have d': "isCollectionDirty sampleNumber
      (sampleServer [sampleResponse ''/c/'' [(''getctag'', JStr ''Y'')]] []) ?C =
      Inr \<lparr>isDirty = True, newCtag = Some ''Y''\<rparr>"
    by (simp add: sample_isCollectionDirty [OF u c])
  have dirty: "smartCollectionSync sampleNumber
      (sampleServer [sampleResponse ''/c/'' [(''getctag'', JStr ''Y'')]] []) ?C
      None (Some (sampleAccount ''caldav'')) False =
     Inr (?C\<lparr>objects := Some (Objects
               [\<lparr>url = ''/c/2.ics'', etag = JStr ''b1'', data = None\<rparr>,
                \<lparr>url = ''/c/3.ics'', etag = JStr ''c1'', data = Some (JStr ''BEGIN:VCALENDAR'')\<rparr>,
                \<lparr>url = ''/c/1.ics'', etag = JStr ''a2'', data = Some (JStr ''BEGIN:VCALENDAR'')\<rparr>]),
             ctag := JStr ''Y''\<rparr>)"
    by (simp add: smartCollectionSync_basic_dirty_result [OF a m l d' _ r] sample_diff_lists)
  from clean o dirty show ?thesis by blast
qed

text \<open>
  C3 (as stated, refuted). The claim reads: after every run, \<open>created \<inter> updated\<close> and
  \<open>deleted \<inter> (created \<union> updated)\<close> are empty, and \<open>unchanged \<union> created \<union>
  updated\<close> equals the set of remote objects up to url-identity. Three runs show
  otherwise; the first two are of the basic strategy on a dirty collection, the third is
  of the webdav strategy. In the first the server's one object \<open>/c/1.vcf\<close> has no etag
  while the snapshot holds it with etag \<open>a\<close>: the guard \<open>found.etag &&\<close> keeps it
  out of \<open>updated\<close>, it matches a local url, so it is not \<open>created\<close>, and the etags
  differ, so the local one is not \<open>unchanged\<close>; the three lists are empty. In the second
  the snapshot holds \<open>https://ex.com/c/1.ics\<close> and the server lists
  \<open>https://ex.com/c/\<close> before \<open>/c/1.ics\<close>: both match the local url, \<open>find\<close>
  returns the first, and the result holds only \<open>https://ex.com/c/\<close>, which is not
  url-identical to the remote \<open>/c/1.ics\<close>. In the third the sync-collection response
  lists \<open>/c/1.ics\<close> once with status 404 and once with status 200, and the multiget
  answers for the href it is asked for: the detailed result holds \<open>/c/1.ics\<close> in
  \<open>created\<close> and in \<open>deleted\<close>. Under the webdav strategy \<open>deleted\<close> is built from
  the hrefs of the response alone and is never compared with the other lists.
\<close>

theorem smartCollectionSync_coverage_counterexample:
  "smartCollectionSync sampleNumber
     (sampleServer [sampleResponse ''/c/'' [(''getctag'', JStr ''v2'')]] [])
     (sampleCollection (JStr ''v1'')
        [\<lparr>url = ''/c/1.vcf'', etag = JStr ''a'', data = None\<rparr>]
        [\<lparr>url = ''/c/1.vcf'', etag = JUndefined, data = Some (JStr ''BEGIN:VCARD'')\<rparr>])
     (Some Basic) (Some (sampleAccount ''carddav'')) False =
   Inr ((sampleCollection (JStr ''v1'')
        [\<lparr>url = ''/c/1.vcf'', etag = JStr ''a'', data = None\<rparr>]
        [\<lparr>url = ''/c/1.vcf'', etag = JUndefined, data = Some (JStr ''BEGIN:VCARD'')\<rparr>])
      \<lparr>objects := Some (Objects []), ctag := JStr ''v2''\<rparr>) \<and>
   smartCollectionSync sampleNumber
     (sampleServer [sampleResponse ''/c/'' [(''getctag'', JStr ''v2'')]] [])
     (sampleCollection (JStr ''v1'')
        [\<lparr>url = ''https://ex.com/c/1.ics'', etag = JStr ''1'', data = None\<rparr>]
        [\<lparr>url = ''https://ex.com/c/'', etag = JStr ''x'', data = Some JUndefined\<rparr>,
         \<lparr>url = ''/c/1.ics'', etag = JStr ''2'', data = Some (JStr ''BEGIN:VCALENDAR'')\<rparr>])
     (Some Basic) (Some (sampleAccount ''caldav'')) False =
   Inr ((sampleCollection (JStr ''v1'')
        [\<lparr>url = ''https://ex.com/c/1.ics'', etag = JStr ''1'', data = None\<rparr>]
        [\<lparr>url = ''https://ex.com/c/'', etag = JStr ''x'', data = Some JUndefined\<rparr>,
         \<lparr>url = ''/c/1.ics'', etag = JStr ''2'', data = Some (JStr ''BEGIN:VCALENDAR'')\<rparr>])
      \<lparr>objects := Some (Objects [\<lparr>url = ''https://ex.com/c/'', etag = JStr ''x'', data = Some JUndefined\<rparr>]),
       ctag := JStr ''v2''\<rparr>) \<and>
   \<not> urlContains ''https://ex.com/c/'' ''/c/1.ics'' \<and>
   smartCollectionSync sampleNumber
     (sampleServer []
        [notFound ''/c/1.ics'', sampleResponse ''/c/1.ics'' [(''getetag'', JStr ''a'')]])
     ((sampleCollection (JStr ''v1'') [] [])
        \<lparr>syncToken := JStr ''t1'', objectMultiGet := Some (sampleMultiGet ''a'')\<rparr>)
     (Some Webdav) (Some (sampleAccount ''caldav'')) True =
   Inr ((sampleCollection (JStr ''v1'') [] [])
      \<lparr>syncToken := JStr ''t1'', objectMultiGet := Some (sampleMultiGet ''a''),
       objects := Some (Diff
         [\<lparr>url = ''/c/1.ics'', etag = JStr ''a'', data = Some JUndefined\<rparr>]
         []
         [\<lparr>url = ''/c/1.ics'', etag = JStr [], data = None\<rparr>])\<rparr>)"
proof -
  have basic: "smartCollectionSync sampleNumber
     (sampleServer [sampleResponse ''/c/'' [(''getctag'', JStr ''v2'')]] [])
     (sampleCollection (JStr ''v1'')
        [\<lparr>url = ''/c/1.vcf'', etag = JStr ''a'', data = None\<rparr>]
        [\<lparr>url = ''/c/1.vcf'', etag = JUndefined, data = Some (JStr ''BEGIN:VCARD'')\<rparr>])
     (Some Basic) (Some (sampleAccount ''carddav'')) False =
   Inr ((sampleCollection (JStr ''v1'')
        [\<lparr>url = ''/c/1.vcf'', etag = JStr ''a'', data = None\<rparr>]
        [\<lparr>url = ''/c/1.vcf'', etag = JUndefined, data = Some (JStr ''BEGIN:VCARD'')\<rparr>])
      \<lparr>objects := Some (Objects []), ctag := JStr ''v2''\<rparr>) \<and>
   smartCollectionSync sampleNumber
     (sampleServer [sampleResponse ''/c/'' [(''getctag'', JStr ''v2'')]] [])
     (sampleCollection (JStr ''v1'')
        [\<lparr>url = ''https://ex.com/c/1.ics'', etag = JStr ''1'', data = None\<rparr>]
        [\<lparr>url = ''https://ex.com/c/'', etag = JStr ''x'', data = Some JUndefined\<rparr>,
         \<lparr>url = ''/c/1.ics'', etag = JStr ''2'', data = Some (JStr ''BEGIN:VCALENDAR'')\<rparr>])
     (Some Basic) (Some (sampleAccount ''caldav'')) False =
   Inr ((sampleCollection (JStr ''v1'')
        [\<lparr>url = ''https://ex.com/c/1.ics'', etag = JStr ''1'', data = None\<rparr>]
        [\<lparr>url = ''https://ex.com/c/'', etag = JStr ''x'', data = Some JUndefined\<rparr>,
         \<lparr>url = ''/c/1.ics'', etag = JStr ''2'', data = Some (JStr ''BEGIN:VCALENDAR'')\<rparr>])
      \<lparr>objects := Some (Objects [\<lparr>url = ''https://ex.com/c/'', etag = JStr ''x'', data = Some JUndefined\<rparr>]),
       ctag := JStr ''v2''\<rparr>) \<and>
   \<not> urlContains ''https://ex.com/c/'' ''/c/1.ics''"
    by (simp add: smartCollectionSync_def Let_def hasFields_def accountField_def sampleAccount_def
        chosenMethod_def isCollectionDirty_def sampleServer_def sampleResponse_def
        sampleCollection_def hrefOrEmpty_def propOf_def sampleNumber_def localObjectsOf_def
        basicRemoteObjects_def createdObjects_def updatedObjects_def unchangedObjects_def
        deletedBasic_def sample_urls sample_urls3)
  let ?W = "(sampleCollection (JStr ''v1'') [] [])
        \<lparr>syncToken := JStr ''t1'', objectMultiGet := Some (sampleMultiGet ''a'')\<rparr>"
  let ?result = "[notFound ''/c/1.ics'', sampleResponse ''/c/1.ics'' [(''getetag'', JStr ''a'')]]"
  have changed: "changedObjectUrlsOf ''caldav'' ?result = [''/c/1.ics'']"
    and gone: "deletedObjectUrlsOf ''caldav'' ?result = [''/c/1.ics'']"
    by (simp_all add: changedObjectUrlsOf_def deletedObjectUrlsOf_def objectResponsesOf_def
        hasExtension_def notFound_def sampleResponse_def List.map_filter_def)
  have remote: "webdavRemoteObjects ?W ''caldav'' ?result =
      Inr [\<lparr>url = ''/c/1.ics'', etag = JStr ''a'', data = Some JUndefined\<rparr>]"
    by (simp add: webdavRemoteObjects_def Let_def changed)
       (simp add: sampleCollection_def sampleMultiGet_def remoteObjectOf_def sampleResponse_def
        hrefOrEmpty_def propOf_def)
  have token: "firstSyncToken ?result = JUndefined"
    by (simp add: firstSyncToken_def notFound_def sampleResponse_def)
  have webdav: "smartCollectionSync sampleNumber (sampleServer [] ?result) ?W
      (Some Webdav) (Some (sampleAccount ''caldav'')) True =
    Inr ((sampleCollection (JStr ''v1'') [] [])
      \<lparr>syncToken := JStr ''t1'', objectMultiGet := Some (sampleMultiGet ''a''),
       objects := Some (Diff
         [\<lparr>url = ''/c/1.ics'', etag = JStr ''a'', data = Some JUndefined\<rparr>]
         []
         [\<lparr>url = ''/c/1.ics'', etag = JStr [], data = None\<rparr>])\<rparr>)"
  proof -
    have a: "hasFields (accountField (sampleAccount ''caldav'')) [''accountType'', ''homeUrl'']"
      by (simp add: sample_account_ready)
    have t: "accountType (sampleAccount ''caldav'') = ''caldav''"
      by (simp add: sampleAccount_def)
    have m: "chosenMethod (Some Webdav) ?W = Webdav"
      by (simp add: chosenMethod_def)
    have l: "localObjectsOf ?W = Inr []"
      by (simp add: localObjectsOf_def sampleCollection_def)
    have r: "?result = syncCollection (sampleServer [] ?result) (url ?W)
        [''d:getetag'', dataPropName (accountType (sampleAccount ''caldav'')), ''d:displayname'']
        1 (syncToken ?W)"
      by (simp add: sampleServer_def)
    have w: "webdavRemoteObjects ?W (accountType (sampleAccount ''caldav'')) ?result =
        Inr [\<lparr>url = ''/c/1.ics'', etag = JStr ''a'', data = Some JUndefined\<rparr>]"
      using remote by (simp add: t)
    show ?thesis
      unfolding smartCollectionSync_webdav_result [OF a m l r w]
      by (simp add: t gone token createdObjects_def updatedObjects_def deletedWebdav_def
          sampleCollection_def)
  qed
  from basic webdav show ?thesis by blast
qed

text \<open>
  C3 (amended). For the lists a run of smartCollectionSync computes from the snapshot
  \<open>L\<close> and the remote objects \<open>R\<close> (either strategy): no url is the url of a
  \<open>created\<close> and of an \<open>updated\<close> object; under the basic strategy no \<open>deleted\<close>
  object is url-identical (urlContains) to a \<open>created\<close> or \<open>updated\<close> object; under
  the webdav strategy, where \<open>deleted\<close> is built from the hrefs \<open>us\<close> that the
  sync-collection response reports with status 404, no url is the url of a \<open>deleted\<close>
  and of a \<open>created\<close> or \<open>updated\<close> object provided no remote object carries one of
  these hrefs; every object of \<open>unchanged \<union> created \<union> updated\<close> is url-identical to
  a remote object; and every remote object is url-identical to an object of
  \<open>unchanged \<union> created \<union> updated\<close> provided every remote object has a truthy etag
  and any two remote objects that match the same local object are url-identical to each
  other.
\<close>

theorem smartCollectionSync_diff_sets:
  "url ` set (createdObjects L R) \<inter> url ` set (updatedObjects N L R) = {} \<and>
   (\<forall>d \<in> set (deletedBasic L R).
      \<forall>x \<in> set (createdObjects L R) \<union> set (updatedObjects N L R).
        \<not> urlContains (url x) (url d)) \<and>
   (url ` set R \<inter> set us = {} \<longrightarrow>
    url ` set (deletedWebdav us) \<inter>
      url ` (set (createdObjects L R) \<union> set (updatedObjects N L R)) = {}) \<and>
   (\<forall>x \<in> set (unchangedObjects L R @ createdObjects L R @ updatedObjects N L R).
      \<exists>r \<in> set R. urlContains (url x) (url r)) \<and>
   ((\<forall>r \<in> set R. truthy N (etag r)) \<and>
    (\<forall>lo \<in> set L. \<forall>r1 \<in> set R. \<forall>r2 \<in> set R.
       urlContains (url r1) (url lo) \<and> urlContains (url r2) (url lo) \<longrightarrow>
       urlContains (url r1) (url r2)) \<longrightarrow>
    (\<forall>r \<in> set R.
       \<exists>x \<in> set (unchangedObjects L R @ createdObjects L R @ updatedObjects N L R).
         urlContains (url x) (url r)))"
proof (intro conjI)
  show "url ` set (createdObjects L R) \<inter> url ` set (updatedObjects N L R) = {}"
    by (rule created_updated_url_disjoint)
  show "\<forall>d \<in> set (deletedBasic L R).
      \<forall>x \<in> set (createdObjects L R) \<union> set (updatedObjects N L R).
        \<not> urlContains (url x) (url d)"
    using deletedBasic_url_disjoint by blast
  show "url ` set R \<inter> set us = {} \<longrightarrow>
    url ` set (deletedWebdav us) \<inter>
      url ` (set (createdObjects L R) \<union> set (updatedObjects N L R)) = {}"
    using deletedWebdav_url_disjoint by blast
  show "\<forall>x \<in> set (unchangedObjects L R @ createdObjects L R @ updatedObjects N L R).
      \<exists>r \<in> set R. urlContains (url x) (url r)"
    using union_covered_by_remote by blast
  show "(\<forall>r \<in> set R. truthy N (etag r)) \<and>
    (\<forall>lo \<in> set L. \<forall>r1 \<in> set R. \<forall>r2 \<in> set R.
       urlContains (url r1) (url lo) \<and> urlContains (url r2) (url lo) \<longrightarrow>
       urlContains (url r1) (url r2)) \<longrightarrow>
    (\<forall>r \<in> set R.
       \<exists>x \<in> set (unchangedObjects L R @ createdObjects L R @ updatedObjects N L R).
         urlContains (url x) (url r))"
    using remote_covered_by_union [of R N L] by blast
qed

theorem smartCollectionSync_diff_sets_witness:
  "unchangedObjects sampleLocalObjects sampleRemoteObjects =
     [\<lparr>url = ''/c/2.ics'', etag = JStr ''b1'', data = None\<rparr>] \<and>
   createdObjects sampleLocalObjects sampleRemoteObjects =
     [\<lparr>url = ''/c/3.ics'', etag = JStr ''c1'', data = Some (JStr ''BEGIN:VCALENDAR'')\<rparr>] \<and>
   updatedObjects sampleNumber sampleLocalObjects sampleRemoteObjects =
     [\<lparr>url = ''/c/1.ics'', etag = JStr ''a2'', data = Some (JStr ''BEGIN:VCALENDAR'')\<rparr>] \<and>
   list_all (\<lambda>r. truthy sampleNumber (etag r)) sampleRemoteObjects \<and>
   list_all (\<lambda>r. url r \<notin> set [''/c/9.ics'']) sampleRemoteObjects \<and>
   list_all (\<lambda>d. list_all (\<lambda>x. url x \<noteq> url d)
       (createdObjects sampleLocalObjects sampleRemoteObjects @
        updatedObjects sampleNumber sampleLocalObjects sampleRemoteObjects))
     (deletedWebdav [''/c/9.ics'']) \<and>
   list_all (\<lambda>r. list_ex (\<lambda>x. urlContains (url x) (url r))
       (unchangedObjects sampleLocalObjects sampleRemoteObjects @
        createdObjects sampleLocalObjects sampleRemoteObjects @
        updatedObjects sampleNumber sampleLocalObjects sampleRemoteObjects))
     sampleRemoteObjects"
proof -
  have A1: "\<forall>r \<in> set sampleRemoteObjects. truthy sampleNumber (etag r)"
    by (simp add: sampleRemoteObjects_def)
  have A2: "\<forall>lo \<in> set sampleLocalObjects. \<forall>r1 \<in> set sampleRemoteObjects.
            \<forall>r2 \<in> set sampleRemoteObjects.
              urlContains (url r1) (url lo) \<and> urlContains (url r2) (url lo) \<longrightarrow>
              urlContains (url r1) (url r2)"
    by (simp add: sampleLocalObjects_def sampleRemoteObjects_def sample_urls2)
  have A3: "url ` set sampleRemoteObjects \<inter> set [''/c/9.ics''] = {}"
    by (simp add: sampleRemoteObjects_def)
  note facts = smartCollectionSync_diff_sets
      [where L = sampleLocalObjects and R = sampleRemoteObjects and N = sampleNumber
         and us = "[''/c/9.ics'']"]
  have cover: "\<forall>r \<in> set sampleRemoteObjects.
       \<exists>x \<in> set (unchangedObjects sampleLocalObjects sampleRemoteObjects @
                  createdObjects sampleLocalObjects sampleRemoteObjects @
                  updatedObjects sampleNumber sampleLocalObjects sampleRemoteObjects).
         urlContains (url x) (url r)"
    using facts A1 A2 by blast
  have apart: "url ` set (deletedWebdav [''/c/9.ics'']) \<inter>
      url ` (set (createdObjects sampleLocalObjects sampleRemoteObjects) \<union>
             set (updatedObjects sampleNumber sampleLocalObjects sampleRemoteObjects)) = {}"
    using facts A3 by blast
  from A1 have t: "list_all (\<lambda>r. truthy sampleNumber (etag r)) sampleRemoteObjects"
    by (simp add: list_all_iff)
  from A3 have n: "list_all (\<lambda>r. url r \<notin> set [''/c/9.ics'']) sampleRemoteObjects"
    unfolding list_all_iff by blast
  from apart have a: "list_all (\<lambda>d. list_all (\<lambda>x. url x \<noteq> url d)
       (createdObjects sampleLocalObjects sampleRemoteObjects @
        updatedObjects sampleNumber sampleLocalObjects sampleRemoteObjects))
     (deletedWebdav [''/c/9.ics''])"
    unfolding list_all_iff set_append by blast
  from cover have c: "list_all (\<lambda>r. list_ex (\<lambda>x. urlContains (url x) (url r))
       (unchangedObjects sampleLocalObjects sampleRemoteObjects @
        createdObjects sampleLocalObjects sampleRemoteObjects @
        updatedObjects sampleNumber sampleLocalObjects sampleRemoteObjects))
     sampleRemoteObjects"
    unfolding list_all_iff list_ex_iff by blast
  from sample_diff_lists(1-3) t n a c show ?thesis by blast
qed

section \<open>Claims about serviceDiscovery\<close>

lemma sample_new_URL:
  "new_URL sampleURLs ''https://ex.com'' None =
     Some \<lparr>url_scheme = ''https:'', url_host = ''ex.com'', url_portnum = [], url_path = ''/''\<rparr>"
  "new_URL sampleURLs ''ex.com'' None = None"
  "new_URL sampleURLs ''localhost:8080'' None =
     Some \<lparr>url_scheme = ''localhost:'', url_host = [], url_portnum = [], url_path = ''8080''\<rparr>"
  "new_URL sampleURLs ''/.well-known/caldav'' (Some ''localhost:8080'') = None"
  "new_URL sampleURLs ''/.well-known/caldav'' (Some ''https://ex.com/'') =
     Some \<lparr>url_scheme = ''https:'', url_host = ''ex.com'', url_portnum = [],
           url_path = ''/.well-known/caldav''\<rparr>"
  "new_URL sampleURLs ''/c/a/'' (Some ''https://ex.com/'') =
     Some \<lparr>url_scheme = ''https:'', url_host = ''ex.com'', url_portnum = [], url_path = ''/c/a/''\<rparr>"
  "new_URL sampleURLs ''/c/b/'' (Some ''https://ex.com/'') =
     Some \<lparr>url_scheme = ''https:'', url_host = ''ex.com'', url_portnum = [], url_path = ''/c/b/''\<rparr>"
  by (simp_all add: sampleURLs_def parseAbsoluteURL_def parseOpaqueURL_def Let_def)

lemma sample_href:
  "h \<noteq> [] \<Longrightarrow>
   URL_href sampleURLs \<lparr>url_scheme = s, url_host = h, url_portnum = [], url_path = p\<rparr> =
     s @ ''//'' @ h @ p"
  "URL_href sampleURLs \<lparr>url_scheme = s, url_host = [], url_portnum = [], url_path = p\<rparr> =
     s @ p"
  by (simp_all add: sampleURLs_def)




section \<open>Claims about fetchCalendars\<close>

text \<open>
  When fetchCalendars returns, it returns one calendar for each response whose
  \<open>resourcetype\<close> has the key \<open>calendar\<close> and one of whose component names is in the
  known set, in the order of the responses, each at the response's href resolved against
  \<open>rootUrl\<close>.
\<close>

lemma filterE_Inr:
  "filterE f xs = Inr ys \<Longrightarrow> ys = filter (\<lambda>x. f x = Inr True) xs"
  by (induction xs arbitrary: ys) (auto split: sum.splits if_splits)

lemma mapE_Inr:
  "mapE f xs = Inr ys \<Longrightarrow> list_all2 (\<lambda>x y. f x = Inr y) xs ys"
  by (induction xs arbitrary: ys) (auto split: sum.splits)

lemma calendarOf_url:
  "calendarOf U acct rs = Inr cal \<Longrightarrow>
     \<exists>u. new_URL U (hrefOrEmpty rs) (Some (rootUrl acct)) = Some u \<and> url cal = URL_href U u"
  by (auto simp: calendarOf_def split: option.splits sum.splits if_splits)

lemma fetchCalendars_returns:
  assumes "fetchCalendars S U (Some acct) customProps = Inr cals"
  shows "list_all2
     (\<lambda>r cal. \<exists>u. new_URL U (hrefOrEmpty r) (Some (rootUrl acct)) = Some u \<and>
                   url cal = URL_href U u)
     (filter (\<lambda>r. isCalendarResource r \<and> isICalCalendar r = Inr True)
        (propfind S (homeUrl acct)
           (case customProps of None \<Rightarrow> defaultCalendarProps | Some ps \<Rightarrow> ps) ''1''))
     cals"
proof -
  let ?res = "propfind S (homeUrl acct)
           (case customProps of None \<Rightarrow> defaultCalendarProps | Some ps \<Rightarrow> ps) ''1''"
  from assms obtain rcs cs where
      rcs: "filterE isICalCalendar (filter isCalendarResource ?res) = Inr rcs"
      and cs: "mapE (calendarOf U acct) rcs = Inr cs"
      and cals: "mapE (\<lambda>cal. case supportedReportSet S cal of
                                      Inl e \<Rightarrow> Inl e
                                    | Inr rs \<Rightarrow> Inr (cal\<lparr>reports := Some rs\<rparr>)) cs = Inr cals"
    by (auto simp: fetchCalendars_def Let_def split: if_splits sum.splits)
  from rcs have "rcs = filter (\<lambda>r. isICalCalendar r = Inr True) (filter isCalendarResource ?res)"
    by (rule filterE_Inr)
  then have r: "rcs = filter (\<lambda>r. isCalendarResource r \<and> isICalCalendar r = Inr True) ?res"
    by (simp add: conj_commute)
  from cs have 1: "list_all2 (\<lambda>x y. calendarOf U acct x = Inr y) rcs cs"
    by (rule mapE_Inr)
  from cals have 2: "list_all2 (\<lambda>c c'. (case supportedReportSet S c of
                                      Inl e \<Rightarrow> Inl e
                                    | Inr rs \<Rightarrow> Inr (c\<lparr>reports := Some rs\<rparr>)) = Inr c') cs cals"
    by (rule mapE_Inr)
  have 3: "list_all2 (\<lambda>c c'. url c' = url c) cs cals"
    using 2 by (rule list_all2_mono) (auto split: sum.splits)
  have 4: "list_all2 (\<lambda>r c. \<exists>u. new_URL U (hrefOrEmpty r) (Some (rootUrl acct)) = Some u \<and>
                   url c = URL_href U u) rcs cs"
    using 1 by (rule list_all2_mono) (auto dest: calendarOf_url)
  have "list_all2 (\<lambda>r c'. \<exists>u. new_URL U (hrefOrEmpty r) (Some (rootUrl acct)) = Some u \<and>
                   url c' = URL_href U u) rcs cals"
    using 4 3 by (auto simp: list_all2_conv_all_nth)
  with r show ?thesis by simp
qed

lemma sample_account_fields:
  "hasFields (accountField (sampleAccount k)) [''homeUrl'', ''rootUrl'']"
  "k \<noteq> [] \<Longrightarrow> hasFields (accountField (sampleAccount k)) [''accountType'', ''homeUrl'']"
  by (simp_all add: hasFields_def accountField_def sampleAccount_def)

lemma sample_calendar_filter:
  "isCalendarResource (calendarResponse h tag token v)"
  by (cases v) (simp_all add: isCalendarResource_def calendarResponse_def sampleResponse_def propOf_def)

lemma sample_componentNames:
  "componentNames (calendarResponse h tag token JUndefined) = Inl TypeError"
  "componentNames (calendarResponse h tag token (compSet [n])) = Inr [JStr n]"
  by (simp_all add: componentNames_def calendarResponse_def sampleResponse_def compSet_def)

lemma sample_propfind:
  "propfind (sampleCalendarServer home) target names ''1'' = home"
  by (simp add: sampleCalendarServer_def)

lemma isICalCalendar_error: "isICalCalendar r = Inl e \<Longrightarrow> e = TypeError"
proof -
  have m: "mapE (\<lambda>sc. case js_get_strict sc ''_attributes'' of
                         Inl e \<Rightarrow> Inl e
                       | Inr a \<Rightarrow> js_get_strict a ''name'') scs = Inl e \<Longrightarrow> e = TypeError"
    for scs :: "'a jsval list"
  proof (induction scs)
    case Nil
    then show ?case by simp
  next
    case (Cons sc scs)
    have g: "js_get_strict v k = Inl x \<Longrightarrow> x = TypeError" for v :: "'a jsval" and k x
      by (cases v) auto
    from Cons show ?case by (auto split: sum.splits dest: g)
  qed
  have g: "js_get_strict v k = Inl x \<Longrightarrow> x = TypeError" for v :: "'a jsval" and k x
    by (cases v) auto
  assume "isICalCalendar r = Inl e"
  then have "componentNames r = Inl e"
    by (auto simp: isICalCalendar_def split: sum.splits)
  then show ?thesis
    by (auto simp: componentNames_def split: option.splits sum.splits jsval.splits dest: g m)
qed

lemma filterE_throws:
  assumes "x \<in> set xs" and "f x = Inl e" and "\<And>y e'. f y = Inl e' \<Longrightarrow> e' = e"
  shows "filterE f xs = Inl e"
  using assms(1)
proof (induction xs)
  case Nil
  then show ?case by simp
next
  case (Cons y ys)
  show ?case
  proof (cases "f y")
    case (Inl e')
    with assms(3) show ?thesis by auto
  next
    case (Inr b)
    with Cons assms(2) have "filterE f ys = Inl e" by auto
    with Inr show ?thesis by simp
  qed
qed

text \<open>
  C9 (the code departs from the claim). The claim reads: for every PROPFIND response set
  fetchCalendars returns exactly the calendar resources whose component set meets the known
  set, and excludes the others. For a response set that holds a calendar collection without
  the property \<open>supported-calendar-component-set\<close>, the second filter reads
  \<open>.comp\<close> of \<open>undefined\<close>: fetchCalendars throws a TypeError and returns no
  calendar at all, the one with \<open>VEVENT\<close> included.
\<close>

theorem fetchCalendars_missing_component_set:
  assumes "hasFields (accountField acct) [''homeUrl'', ''rootUrl'']"
    and "r \<in> set (propfind S (homeUrl acct)
           (case customProps of None \<Rightarrow> defaultCalendarProps | Some ps \<Rightarrow> ps) ''1'')"
    and "isCalendarResource r"
    and "propOf r ''supportedCalendarComponentSet'' = JUndefined"
  shows "fetchCalendars S U (Some acct) customProps = Inl TypeError"
proof -
  from assms(3) obtain ps where ps: "props r = Some ps"
    by (cases "props r") (auto simp: isCalendarResource_def propOf_def)
  with assms(4) have "componentNames r = Inl TypeError"
    by (simp add: componentNames_def propOf_def)
  then have "isICalCalendar r = Inl TypeError"
    by (simp add: isICalCalendar_def)
  moreover from assms(2,3) have "r \<in> set (filter isCalendarResource (propfind S (homeUrl acct)
           (case customProps of None \<Rightarrow> defaultCalendarProps | Some ps \<Rightarrow> ps) ''1''))"
    by simp
  ultimately have "filterE isICalCalendar (filter isCalendarResource (propfind S (homeUrl acct)
           (case customProps of None \<Rightarrow> defaultCalendarProps | Some ps \<Rightarrow> ps) ''1'')) =
        Inl TypeError"
    using isICalCalendar_error by (intro filterE_throws) auto
  with assms(1) show ?thesis
    by (simp add: fetchCalendars_def Let_def)
qed

theorem fetchCalendars_missing_component_set_witness:
  "fetchCalendars
     (sampleCalendarServer
        [calendarResponse ''/c/a/'' ''c1'' ''t1'' (compSet [''VEVENT'']),
         calendarResponse ''/c/b/'' ''c2'' ''t2'' JUndefined])
     sampleURLs (Some (sampleAccount ''caldav'')) None = Inl TypeError"
proof -
  have "propOf (calendarResponse ''/c/b/'' ''c2'' ''t2'' JUndefined)
          ''supportedCalendarComponentSet'' = (JUndefined :: nat jsval)"
    by (simp add: calendarResponse_def sampleResponse_def propOf_def)
  then show ?thesis
    using fetchCalendars_missing_component_set
      [of "sampleAccount ''caldav''" "calendarResponse ''/c/b/'' ''c2'' ''t2'' JUndefined"
          "sampleCalendarServer
            [calendarResponse ''/c/a/'' ''c1'' ''t1'' (compSet [''VEVENT'']),
             calendarResponse ''/c/b/'' ''c2'' ''t2'' JUndefined]" None sampleURLs]
    by (simp add: sample_account_fields sample_propfind sample_calendar_filter)
qed

lemma sample_isICalCalendar:
  "isICalCalendar (calendarResponse h tag token (compSet [n])) = Inr (n \<in> set ICALObjects)"
  by (simp add: isICalCalendar_def sample_componentNames)

lemma sample_response_fields:
  "hrefOrEmpty (calendarResponse h tag token v) = h"
  "propOf (calendarResponse h tag token (compSet [n])) ''getctag'' = JStr tag"
  "propOf (calendarResponse h tag token (compSet [n])) ''syncToken'' = JStr token"
  "propOf (calendarResponse h tag token (compSet [n])) ''calendarDescription'' = JUndefined"
  "propOf (calendarResponse h tag token (compSet [n])) ''calendarTimezone'' = JUndefined"
  "propOf (calendarResponse h tag token (compSet [n])) ''calendarColor'' = JUndefined"
  "propOf (calendarResponse h tag token (compSet [n])) ''resourcetype'' =
     JObj [(''collection'', JObj []), (''calendar'', JObj [])]"
  "\<exists>ps. props (calendarResponse h tag token (compSet [n])) = Some ps \<and>
        js_get (JObj ps) ''displayname'' = JStr ''Home''"
  by (simp_all add: calendarResponse_def sampleResponse_def hrefOrEmpty_def propOf_def compSet_def)

lemma sample_calendarOf:
  "calendarOf sampleURLs (sampleAccount k) (calendarResponse ''/c/a/'' tag token (compSet [n])) =
     Inr ((sampleCalendar ''https://ex.com/c/a/'' tag token [n])\<lparr>reports := None\<rparr>)"
proof -
  obtain ps where ps: "props (calendarResponse ''/c/a/'' tag token (compSet [n])) = Some ps"
      "js_get (JObj ps) ''displayname'' = JStr ''Home''"
    using sample_response_fields(8) by blast
  have r: "rootUrl (sampleAccount k) = ''https://ex.com/''"
    by (simp add: sampleAccount_def)
  show ?thesis
    using ps(2)
    by (simp add: calendarOf_def sample_componentNames sample_response_fields(1-7) ps(1) r
        sample_new_URL sample_href sampleCalendar_def)
qed

lemma sample_supportedReportSet:
  "supportedReportSet (sampleCalendarServer home) c = Inr []"
  by (simp add: supportedReportSet_def sampleCalendarServer_def)

lemma sample_fetchCalendars:
  "n \<in> set ICALObjects \<Longrightarrow>
   fetchCalendars
     (sampleCalendarServer [calendarResponse ''/c/a/'' tag token (compSet [n])])
     sampleURLs (Some (sampleAccount ''caldav'')) None =
   Inr [sampleCalendar ''https://ex.com/c/a/'' tag token [n]]"
  by (simp add: fetchCalendars_def Let_def sample_account_fields sample_calendar_filter
      sample_isICalCalendar sample_calendarOf sample_supportedReportSet sample_propfind
      sampleCalendar_def)

lemma fetchCalendars_scenario:
  "fetchCalendars
     (sampleCalendarServer
        [calendarResponse ''/c/a/'' ''c1'' ''t1'' (compSet [''VJOURNAL'']),
         calendarResponse ''/c/b/'' ''c2'' ''t2'' (compSet [''VMESSAGE''])])
     sampleURLs (Some (sampleAccount ''caldav'')) None =
   Inr [sampleCalendar ''https://ex.com/c/a/'' ''c1'' ''t1'' [''VJOURNAL'']]"
  by (simp add: fetchCalendars_def Let_def sample_account_fields sample_calendar_filter
      sample_isICalCalendar sample_calendarOf sample_supportedReportSet sample_propfind
      sampleCalendar_def ICALObjects_def)

section \<open>Claims about syncCalendars\<close>

lemma updatedCalendars_no_change:
  assumes "\<forall>cal \<in> set L. \<forall>rc \<in> set R. urlContains (url rc) (url cal) \<longrightarrow> \<not> tagsDiffer N rc cal"
  shows "updatedCalendars N L R = []"
proof -
  have "foldl (\<lambda>prev curr.
              case find (\<lambda>rc. urlContains (url rc) (url curr)) R of
                Some found \<Rightarrow> if tagsDiffer N found curr then prev @ [found] else prev
              | None \<Rightarrow> prev) acc L' = acc" if "set L' \<subseteq> set L" for acc L'
    using that
  proof (induction L' arbitrary: acc)
    case Nil
    show ?case by simp
  next
    case (Cons c cs)
    then have c: "c \<in> set L" by simp
    have "\<not> tagsDiffer N found c"
      if "find (\<lambda>rc. urlContains (url rc) (url c)) R = Some found" for found
      using that assms c by (auto simp: find_Some_iff)
    with Cons show ?case by (auto split: option.splits)
  qed
  then show ?thesis by (simp add: updatedCalendars_def)
qed

lemma unchangedCalendars_no_change:
  assumes "\<forall>cal \<in> set L. \<forall>rc \<in> set R. urlContains (url rc) (url cal) \<longrightarrow> \<not> tagsDiffer N rc cal"
  shows "unchangedCalendars N L R = []"
  using assms by (auto simp: unchangedCalendars_def filter_empty_conv list_ex_iff)

text \<open>
  C2 (the code departs from the claim). The claim reads: the result is
  \<open>unchanged \<union> created \<union> updatedWithObjects\<close>, where a local calendar is unchanged
  iff some remote calendar matches it and is not changed. The filter that computes
  \<open>unchanged\<close> keeps a local calendar when a matching remote calendar has a different
  syncToken or ctag, which is the test of \<open>updated\<close>, not its negation. So when no
  remote calendar differs in its tags from a local calendar it matches, the result is the
  created calendars only and every local calendar is left out. With one
  calendar at \<open>https://ex.com/c/a/\<close> whose tags are the same on both sides, the result
  is the empty list; when the server's tags are newer, the result holds the stale local
  calendar and the synced remote one.
\<close>

theorem syncCalendars_no_change:
  assumes "fetchCalendars S U (Some acct) None = Inr R"
    and "\<forall>cal \<in> set L. \<forall>rc \<in> set R. urlContains (url rc) (url cal) \<longrightarrow> \<not> tagsDiffer N rc cal"
  shows "syncCalendars N S U (Some L) (Some acct) False = Inr (Calendars (createdCalendars L R))"
  using assms(1) updatedCalendars_no_change [OF assms(2)] unchangedCalendars_no_change [OF assms(2)]
  by (simp add: syncCalendars_def Let_def)

lemma sample_urls4:
  "urlContains ''https://ex.com/c/a/'' ''https://ex.com/c/a/''"
  by (simp add: urlContains_refl)

theorem syncCalendars_drops_unchanged:
  "fetchCalendars
     (sampleCalendarServer [calendarResponse ''/c/a/'' ''c1'' ''t1'' (compSet [''VEVENT''])])
     sampleURLs (Some (sampleAccount ''caldav'')) None =
     Inr [sampleCalendar ''https://ex.com/c/a/'' ''c1'' ''t1'' [''VEVENT'']] \<and>
   syncCalendars sampleNumber
     (sampleCalendarServer [calendarResponse ''/c/a/'' ''c1'' ''t1'' (compSet [''VEVENT''])])
     sampleURLs (Some [sampleCalendar ''https://ex.com/c/a/'' ''c1'' ''t1'' [''VEVENT'']])
     (Some (sampleAccount ''caldav'')) False =
     Inr (Calendars []) \<and>
   syncCalendars sampleNumber
     (sampleCalendarServer [calendarResponse ''/c/a/'' ''c1'' ''t1'' (compSet [''VEVENT''])])
     sampleURLs (Some [sampleCalendar ''https://ex.com/c/a/'' ''c0'' ''t0'' [''VEVENT'']])
     (Some (sampleAccount ''caldav'')) False =
     Inr (Calendars
       [sampleCalendar ''https://ex.com/c/a/'' ''c0'' ''t0'' [''VEVENT''],
        (sampleCalendar ''https://ex.com/c/a/'' ''c1'' ''t1'' [''VEVENT''])
          \<lparr>objects := Some (Objects []),
           objectMultiGet := Some (calendarMultiGet
             (sampleCalendarServer [calendarResponse ''/c/a/'' ''c1'' ''t1'' (compSet [''VEVENT''])]))\<rparr>])"
proof -
  let ?S = "sampleCalendarServer [calendarResponse ''/c/a/'' ''c1'' ''t1'' (compSet [''VEVENT''])]"
  have f: "fetchCalendars ?S sampleURLs (Some (sampleAccount ''caldav'')) None =
     Inr [sampleCalendar ''https://ex.com/c/a/'' ''c1'' ''t1'' [''VEVENT'']]"
    by (rule sample_fetchCalendars) (simp add: ICALObjects_def)
  have 1: "syncCalendars sampleNumber ?S sampleURLs
      (Some [sampleCalendar ''https://ex.com/c/a/'' ''c1'' ''t1'' [''VEVENT'']])
      (Some (sampleAccount ''caldav'')) False = Inr (Calendars [])"
    using syncCalendars_no_change
      [of ?S sampleURLs "sampleAccount ''caldav''"
          "[sampleCalendar ''https://ex.com/c/a/'' ''c1'' ''t1'' [''VEVENT'']]"
          "[sampleCalendar ''https://ex.com/c/a/'' ''c1'' ''t1'' [''VEVENT'']]" sampleNumber]
    by (simp add: f createdCalendars_def tagsDiffer_def sampleCalendar_def sample_urls4)
  have s: "smartCollectionSync sampleNumber ?S
      ((sampleCalendar ''https://ex.com/c/a/'' ''c1'' ''t1'' [''VEVENT''])
         \<lparr>objectMultiGet := Some (calendarMultiGet ?S)\<rparr>)
      (Some Webdav) (Some (sampleAccount ''caldav'')) False =
    Inr ((sampleCalendar ''https://ex.com/c/a/'' ''c1'' ''t1'' [''VEVENT''])
          \<lparr>objects := Some (Objects []), objectMultiGet := Some (calendarMultiGet ?S)\<rparr>)"
    by (simp add: smartCollectionSync_def Let_def sample_account_fields chosenMethod_def
        sampleCalendarServer_def deletedObjectUrlsOf_def objectResponsesOf_def
        webdavRemoteObjects_def changedObjectUrlsOf_def List.map_filter_def)
       (simp add: localObjectsOf_def sampleCalendar_def createdObjects_def
        updatedObjects_def unchangedObjects_def firstSyncToken_def)
  have 2: "syncCalendars sampleNumber ?S sampleURLs
      (Some [sampleCalendar ''https://ex.com/c/a/'' ''c0'' ''t0'' [''VEVENT'']])
      (Some (sampleAccount ''caldav'')) False =
     Inr (Calendars
       [sampleCalendar ''https://ex.com/c/a/'' ''c0'' ''t0'' [''VEVENT''],
        (sampleCalendar ''https://ex.com/c/a/'' ''c1'' ''t1'' [''VEVENT''])
          \<lparr>objects := Some (Objects []), objectMultiGet := Some (calendarMultiGet ?S)\<rparr>])"
  proof -
    have u: "updatedCalendars sampleNumber
        [sampleCalendar ''https://ex.com/c/a/'' ''c0'' ''t0'' [''VEVENT'']]
        [sampleCalendar ''https://ex.com/c/a/'' ''c1'' ''t1'' [''VEVENT'']] =
        [sampleCalendar ''https://ex.com/c/a/'' ''c1'' ''t1'' [''VEVENT'']]"
      by (simp add: updatedCalendars_def tagsDiffer_def sampleCalendar_def sample_urls4 sampleNumber_def)
    have c: "createdCalendars
        [sampleCalendar ''https://ex.com/c/a/'' ''c0'' ''t0'' [''VEVENT'']]
        [sampleCalendar ''https://ex.com/c/a/'' ''c1'' ''t1'' [''VEVENT'']] = []"
      by (simp add: createdCalendars_def sampleCalendar_def sample_urls4)
    have n: "unchangedCalendars sampleNumber
        [sampleCalendar ''https://ex.com/c/a/'' ''c0'' ''t0'' [''VEVENT'']]
        [sampleCalendar ''https://ex.com/c/a/'' ''c1'' ''t1'' [''VEVENT'']] =
        [sampleCalendar ''https://ex.com/c/a/'' ''c0'' ''t0'' [''VEVENT'']]"
      by (simp add: unchangedCalendars_def tagsDiffer_def sampleCalendar_def sample_urls4 sampleNumber_def)
    show ?thesis
      by (simp add: syncCalendars_def Let_def f u c n s)
  qed
  from f 1 2 show ?thesis by simp
qed

end
